theory Spec2Isabelle
  imports Main "HOL-Library.Word"
begin

section \<open>Faults\<close>

text \<open>
  The hooks of \<^verbatim>\<open>library.cpp\<close> are C++ with raw pointers and fixed buffers. Every place
  where the source has undefined behaviour is a fault value of the model, so that a
  hook either returns or faults, and a theorem that it returns says so.
\<close>

datatype fault =
    NullDeref      \<comment> \<open>a null pointer is dereferenced\<close>
  | OutOfBounds    \<comment> \<open>bytes are read or written outside every live block\<close>
  | BufferOverread \<comment> \<open>a C string is read past the end of its array\<close>
  | InvalidFree    \<comment> \<open>\<^verbatim>\<open>free\<close> of an address that is no live block\<close>
  | JniError       \<comment> \<open>a JNI call on a null array reference\<close>

section \<open>The file-status hook\<close>

subsection \<open>Configuration\<close>

text \<open>
  Modelled from the spec: \<^verbatim>\<open>config.h\<close>, which declares \<^verbatim>\<open>native_config_t\<close>, is not among
  the sources. The two flags are the ones \<^verbatim>\<open>load_config\<close> writes and \<^verbatim>\<open>fstat_hook\<close>
  reads (the spec's suppress-companion-feature and suppress-metrics flags).
\<close>

record native_config_t =
  disable_bitmoji :: bool
  disable_metrics :: bool

subsection \<open>C strings in a fixed array\<close>

definition NUL :: char where
  "NUL = CHR 0x00"

text \<open>\<^verbatim>\<open>memset(name, 0, n)\<close> on an array of \<open>n\<close> characters.\<close>

definition memset_zero :: "nat \<Rightarrow> string" where
  "memset_zero n = replicate n NUL"

text \<open>The string a C function reads from an array: the characters before the first NUL.\<close>

definition c_str :: "string \<Rightarrow> string" where
  "c_str buf = takeWhile (\<lambda>c. c \<noteq> NUL) buf"

text \<open>The \<^verbatim>\<open>%d\<close> conversion of a C \<^verbatim>\<open>int\<close>.\<close>

definition digit_char :: "nat \<Rightarrow> char" where
  "digit_char d = ''0123456789'' ! d"

fun dec_nat :: "nat \<Rightarrow> string" where
  "dec_nat n = (if n < 10 then [digit_char n] else dec_nat (n div 10) @ [digit_char (n mod 10)])"

declare dec_nat.simps [simp del]

definition dec_int :: "int \<Rightarrow> string" where
  "dec_int i = (if i < 0 then CHR ''-'' # dec_nat (nat (- i)) else dec_nat (nat i))"

text \<open>
  \<^verbatim>\<open>snprintf(buf, sizeof buf, ...)\<close>: the formatted text, cut to leave room for the
  terminating NUL, is written over the start of the array.
\<close>

definition snprintf :: "string \<Rightarrow> string \<Rightarrow> string" where
  "snprintf buf txt =
     (let t = take (length buf - 1) txt in t @ NUL # drop (length t + 1) buf)"

text \<open>
  \<^verbatim>\<open>readlink(path, buf, sizeof buf)\<close>: \<open>links\<close> is the symbolic-link table of the
  operating system (\<open>None\<close> where \<^verbatim>\<open>readlink\<close> fails and leaves the array as it was).
  At most \<open>length buf\<close> characters of the target are written over the start of the
  array, and no NUL is appended.
\<close>

definition readlink :: "(string \<Rightarrow> string option) \<Rightarrow> string \<Rightarrow> string \<Rightarrow> string" where
  "readlink links path buf =
     (case links path of
        None \<Rightarrow> buf
      | Some target \<Rightarrow> take (length buf) target @ drop (length target) buf)"

text \<open>
  \<^verbatim>\<open>std::string(name)\<close> reads up to the first NUL; an array that holds none is read
  past its end.
\<close>

definition std_string :: "string \<Rightarrow> fault + string" where
  "std_string buf = (if NUL \<in> set buf then Inr (c_str buf) else Inl BufferOverread)"

text \<open>
  \<^verbatim>\<open>std::string::find\<close>: the first position at which \<open>pat\<close> occurs in \<open>s\<close>;
  \<open>None\<close> is \<^verbatim>\<open>npos\<close>.
\<close>

fun str_find :: "string \<Rightarrow> string \<Rightarrow> nat option" where
  "str_find [] pat = (if pat = [] then Some 0 else None)"
| "str_find (c # cs) pat =
     (if take (length pat) (c # cs) = pat then Some 0 else map_option Suc (str_find cs pat))"

subsection \<open>The hook\<close>

text \<open>
  What the hook can do to its surroundings: unlink a path, and call the original
  \<^verbatim>\<open>fstat\<close>. The state holds the caller's \<^verbatim>\<open>struct stat\<close> (\<open>stat_buf\<close>, of an abstract
  type), the names that exist with what each one names, the names the operating system
  refuses to unlink (no write permission on the directory, a read-only file system),
  and the calls made so far.
\<close>

datatype fs_call = Unlink string | FstatOriginal "32 word"

datatype file_kind = File | Directory

record 'st fstat_state =
  stat_buf :: 'st
  files :: "string \<rightharpoonup> file_kind"
  unlink_refused :: "string set"
  calls :: "fs_call list"

text \<open>
  \<^verbatim>\<open>unlink(path)\<close>: the name is removed when it exists, does not name a directory and the
  operating system does not refuse; otherwise the call fails (\<^verbatim>\<open>ENOENT\<close>, \<^verbatim>\<open>EISDIR\<close>,
  \<^verbatim>\<open>EACCES\<close>, ...) and nothing changes. The hook discards the result, so the model
  returns the state only.
\<close>

definition unlink :: "string \<Rightarrow> 'st fstat_state \<Rightarrow> 'st fstat_state" where
  "unlink path s =
     (if files s path = Some File \<and> path \<notin> unlink_refused s
      then s\<lparr>files := (files s)(path := None)\<rparr>
      else s)"

text \<open>The text \<^verbatim>\<open>snprintf\<close> formats from \<^verbatim>\<open>"/proc/self/fd/%d"\<close> and the descriptor.\<close>

definition proc_fd_path :: "32 word \<Rightarrow> string" where
  "proc_fd_path fd = ''/proc/self/fd/'' @ dec_int (sint fd)"

text \<open>
  Lines 17 to 20: the array \<^verbatim>\<open>name\<close> once the descriptor's link has been read. The
  link's path and the output array are the same array, as in the source.
\<close>

definition fd_name :: "(string \<Rightarrow> string option) \<Rightarrow> 32 word \<Rightarrow> string" where
  "fd_name links fd =
     (let name = memset_zero 256;
          name = snprintf name (proc_fd_path fd)
      in readlink links (c_str name) name)"

text \<open>
  \<^verbatim>\<open>fstat_hook\<close>. The globals \<^verbatim>\<open>native_config\<close> and \<^verbatim>\<open>fstat_original\<close> are parameters;
  the original takes the descriptor and the caller's structure and returns its result
  and the structure as it left it.
\<close>

definition fstat_hook ::
  "native_config_t \<Rightarrow> (32 word \<Rightarrow> 'st \<Rightarrow> int \<times> 'st) \<Rightarrow> (string \<Rightarrow> string option) \<Rightarrow>
   32 word \<Rightarrow> 'st fstat_state \<Rightarrow> fault + (int \<times> 'st fstat_state)" where
  "fstat_hook native_config fstat_original links fd s =
     (let name = fd_name links fd in
      case std_string name of
        Inl f \<Rightarrow> Inl f
      | Inr fileName \<Rightarrow>
          if disable_metrics native_config \<and>
             str_find fileName ''files/blizzardv2/queues'' \<noteq> None
          then Inr (- 1, unlink (c_str name) (s\<lparr>calls := calls s @ [Unlink (c_str name)]\<rparr>))
          else if disable_bitmoji native_config \<and>
             str_find fileName ''com.snap.file_manager_4_SCContent'' \<noteq> None
          then Inr (- 1, s)
          else (case fstat_original fd (stat_buf s) of
                  (r, b) \<Rightarrow> Inr (r, s\<lparr>stat_buf := b, calls := calls s @ [FstatOriginal fd]\<rparr>)))"

section \<open>The unary-call hook\<close>

subsection \<open>Memory\<close>

type_synonym addr = "64 word"
type_synonym byte = "8 word"

text \<open>
  Modelled from the spec: \<^verbatim>\<open>grpc.h\<close>, which declares \<^verbatim>\<open>grpc::grpc_byte_buffer\<close> and the
  type of its \<^verbatim>\<open>slice_buffer\<close> field, is not among the sources. The fields are the ones
  \<^verbatim>\<open>unaryCall_hook\<close> reads and writes (the spec's SliceBuffer:
  ref_counter_block, length, data_pointer); \<open>length_field\<close> is the source's \<^verbatim>\<open>length\<close>,
  an unsigned 64-bit size. Pointers are 64-bit addresses (the hooked code is AArch64),
  0 is the null pointer.
\<close>

record ref_counted_slice_byte_buffer =
  ref_counter :: addr
  length_field :: "64 word"
  data :: addr

record grpc_byte_buffer =
  slice_buffer :: addr

text \<open>
  The heap is split by type: the cells that hold a \<^verbatim>\<open>grpc_byte_buffer *\<close>, the byte-buffer
  and slice-buffer structures, and the byte blocks handed out by \<^verbatim>\<open>malloc\<close>, each block
  its base address and its contents. Structures do not alias the byte blocks.
\<close>

record heap =
  byte_buffer_ptrs :: "addr \<rightharpoonup> addr"
  byte_buffers :: "addr \<rightharpoonup> grpc_byte_buffer"
  slice_buffers :: "addr \<rightharpoonup> ref_counted_slice_byte_buffer"
  blocks :: "(addr \<times> byte list) list"

text \<open>Reading through a pointer: null and unmapped addresses fault.\<close>

definition deref :: "(addr \<rightharpoonup> 'a) \<Rightarrow> addr \<Rightarrow> fault + 'a" where
  "deref m p =
     (if p = 0 then Inl NullDeref
      else case m p of None \<Rightarrow> Inl OutOfBounds | Some v \<Rightarrow> Inr v)"

text \<open>
  \<open>n\<close> bytes at address \<open>p\<close>: they lie in one block, at offset \<open>p - b\<close> from its base
  (address arithmetic is modulo \<open>2 ^ 64\<close>). The blocks of a heap do not overlap, so
  at most one block holds them.
\<close>

fun read_bytes :: "(addr \<times> byte list) list \<Rightarrow> addr \<Rightarrow> nat \<Rightarrow> byte list option" where
  "read_bytes [] p n = None"
| "read_bytes ((b, bs) # m) p n =
     (if unat (p - b) + n \<le> length bs then Some (take n (drop (unat (p - b)) bs))
      else read_bytes m p n)"

fun write_bytes ::
  "(addr \<times> byte list) list \<Rightarrow> addr \<Rightarrow> byte list \<Rightarrow> (addr \<times> byte list) list option" where
  "write_bytes [] p xs = None"
| "write_bytes ((b, bs) # m) p xs =
     (if unat (p - b) + length xs \<le> length bs
      then Some ((b, take (unat (p - b)) bs @ xs @ drop (unat (p - b) + length xs) bs) # m)
      else map_option ((#) (b, bs)) (write_bytes m p xs))"

text \<open>
  \<^verbatim>\<open>memcpy(dst, src, n)\<close> between two heap addresses. A copy of no bytes touches no
  memory, whatever the two pointers are.
\<close>

definition memcpy ::
  "(addr \<times> byte list) list \<Rightarrow> addr \<Rightarrow> addr \<Rightarrow> nat \<Rightarrow> fault + (addr \<times> byte list) list" where
  "memcpy m dst src n =
     (if n = 0 then Inr m
      else if dst = 0 \<or> src = 0 then Inl NullDeref
      else case read_bytes m src n of
             None \<Rightarrow> Inl OutOfBounds
           | Some xs \<Rightarrow>
               (case write_bytes m dst xs of None \<Rightarrow> Inl OutOfBounds | Some m' \<Rightarrow> Inr m'))"

text \<open>
  \<^verbatim>\<open>memcpy(dst, src, n)\<close> whose source is the elements of a Java array (they live in the
  virtual machine, not in the heap above).
\<close>

definition memcpy_array ::
  "(addr \<times> byte list) list \<Rightarrow> addr \<Rightarrow> byte list \<Rightarrow> nat \<Rightarrow> fault + (addr \<times> byte list) list" where
  "memcpy_array m dst elems n =
     (if n = 0 then Inr m
      else if dst = 0 then Inl NullDeref
      else if length elems < n then Inl OutOfBounds
      else case write_bytes m dst (take n elems) of
             None \<Rightarrow> Inl OutOfBounds
           | Some m' \<Rightarrow> Inr m')"

text \<open>
  \<^verbatim>\<open>malloc(sz)\<close>: the allocator chooses the address (\<open>alloc\<close>, a parameter); 0 is
  failure. The contents of a new block are unspecified in C; the model fills it with
  zeroes, and the hook writes every byte of the block before anything reads it.
\<close>

definition malloc ::
  "((addr \<times> byte list) list \<Rightarrow> 64 word \<Rightarrow> addr) \<Rightarrow> (addr \<times> byte list) list \<Rightarrow> 64 word \<Rightarrow>
   addr \<times> (addr \<times> byte list) list" where
  "malloc alloc m sz =
     (let p = alloc m sz in
      if p = 0 then (0, m) else (p, (p, replicate (unat sz) 0) # m))"

text \<open>\<^verbatim>\<open>free(p)\<close>: nothing for null, the block with base \<open>p\<close> otherwise.\<close>

definition free :: "(addr \<times> byte list) list \<Rightarrow> addr \<Rightarrow> fault + (addr \<times> byte list) list" where
  "free m p =
     (if p = 0 then Inr m
      else if p \<in> fst ` set m then Inr (filter (\<lambda>blk. fst blk \<noteq> p) m)
      else Inl InvalidFree)"

subsection \<open>The call, its surroundings and the process state\<close>

text \<open>The six arguments of the dispatch function; \<open>uri\<close> is the C string's text.\<close>

record unary_args =
  unk1 :: addr
  uri :: string
  buffer_ptr :: addr
  unk4 :: addr
  unk5 :: addr
  unk6 :: addr

text \<open>
  Modelled from the spec: the Java class \<^verbatim>\<open>NativeRequestData\<close> is not among the sources.
  The hook reads its boolean field \<^verbatim>\<open>canceled\<close> and its byte-array field \<^verbatim>\<open>buffer\<close> (a
  reference, \<open>None\<close> when null). The spec's decisions are: no object (\<open>None\<close>) for
  NoOpinion, an object with \<open>canceled\<close> set for Cancel, and an object with \<open>canceled\<close>
  clear and \<open>buffer = Some P\<close> for Rewrite with payload \<open>P\<close>.
\<close>

record NativeRequestData =
  canceled :: bool
  buffer :: "byte list option"

text \<open>
  What the hook does that its surroundings can observe, in order: the read of the
  payload into the Java array, the call of the decision-maker, \<^verbatim>\<open>malloc\<close> with its
  size and result, \<^verbatim>\<open>free\<close>, and the call of the original dispatch with the heap it
  is handed.
\<close>

datatype event =
    SetByteArrayRegion addr nat
  | OnNativeUnaryCall string "byte list"
  | Malloc "64 word" addr
  | Free addr
  | UnaryCallOriginal unary_args heap

text \<open>
  The state of the process: the heap, the function-local
  \<^verbatim>\<open>const static auto ref_counter_struct_size\<close> (\<open>None\<close> until control first passes its
  declaration, the value it was initialised with from then on), and the events so far.
\<close>

record process =
  mem :: heap
  ref_counter_struct_size :: "64 word option"
  trace :: "event list"

text \<open>
  The surroundings: the trampoline \<^verbatim>\<open>unaryCall_original\<close> (it returns a pointer and
  may change the heap), the Java method \<^verbatim>\<open>onNativeUnaryCall\<close>, the allocator's choice of
  address, and whether \<^verbatim>\<open>GetEnv\<close> finds the calling thread attached (it leaves \<^verbatim>\<open>env\<close>
  null otherwise).
\<close>

record env =
  unaryCall_original :: "unary_args \<Rightarrow> heap \<Rightarrow> addr \<times> heap"
  onNativeUnaryCall :: "string \<Rightarrow> byte list \<Rightarrow> NativeRequestData option"
  allocator :: "(addr \<times> byte list) list \<Rightarrow> 64 word \<Rightarrow> addr"
  thread_attached :: bool

definition call_original :: "env \<Rightarrow> unary_args \<Rightarrow> process \<Rightarrow> addr \<times> process" where
  "call_original e a s =
     (case unaryCall_original e a (mem s) of
        (r, h) \<Rightarrow> (r, s\<lparr>mem := h, trace := trace s @ [UnaryCallOriginal a (mem s)]\<rparr>))"

subsection \<open>The hook\<close>

text \<open>
  Sequencing: a step that faults ends the run; \<open>fault_in s\<close> attaches to a fault the state
  in which it happens.
\<close>

definition bind_fault :: "'f + 'a \<Rightarrow> ('a \<Rightarrow> 'f + 'b) \<Rightarrow> 'f + 'b" where
  "bind_fault r k = (case r of Inl f \<Rightarrow> Inl f | Inr v \<Rightarrow> k v)"

definition fault_in :: "'s \<Rightarrow> fault + 'a \<Rightarrow> (fault \<times> 's) + 'a" where
  "fault_in s r = (case r of Inl f \<Rightarrow> Inl (f, s) | Inr v \<Rightarrow> Inr v)"

definition record_event :: "event \<Rightarrow> process \<Rightarrow> process" where
  "record_event ev s = s\<lparr>trace := trace s @ [ev]\<rparr>"

definition set_blocks :: "(addr \<times> byte list) list \<Rightarrow> process \<Rightarrow> process" where
  "set_blocks m s = s\<lparr>mem := (mem s)\<lparr>blocks := m\<rparr>\<rparr>"

text \<open>
  Lines 78 to 101 of \<^verbatim>\<open>unaryCall_hook\<close>, the body of the rewrite: \<open>slice_buffer_p\<close> is
  the pointer \<^verbatim>\<open>slice_buffer\<close>, \<open>sb\<close> the structure it points to, \<open>new_buffer\<close> the
  elements of the Java array. \<^verbatim>\<open>jsize\<close> is a signed 32-bit integer: the array's length
  is widened from it, with its sign, where it is added to the header size, passed to
  \<^verbatim>\<open>memcpy\<close> and stored in the buffer. The static \<^verbatim>\<open>ref_counter_struct_size\<close> is
  initialised from this call's buffer only when it has not been initialised before.
\<close>

definition rewrite_slice_buffer ::
  "env \<Rightarrow> addr \<Rightarrow> ref_counted_slice_byte_buffer \<Rightarrow> byte list \<Rightarrow> process \<Rightarrow>
   (fault \<times> process) + process" where
  "rewrite_slice_buffer e slice_buffer_p sb new_buffer s =
     (let new_buffer_length = (word_of_nat (length new_buffer) :: 32 word);
          len = (scast new_buffer_length :: 64 word);
          struct_size = (case ref_counter_struct_size s of
                           None \<Rightarrow> data sb - ref_counter sb
                         | Some v \<Rightarrow> v);
          s = s\<lparr>ref_counter_struct_size := Some struct_size\<rparr>;
          alloc = malloc (allocator e) (blocks (mem s)) (struct_size + len);
          new_ref_counter = fst alloc;
          s = record_event (Malloc (struct_size + len) new_ref_counter) (set_blocks (snd alloc) s)
      in
      bind_fault (fault_in s (memcpy (blocks (mem s)) new_ref_counter (ref_counter sb) (unat struct_size)))
        (\<lambda>m. let s = set_blocks m s in
      bind_fault (fault_in s (memcpy_array (blocks (mem s)) (new_ref_counter + struct_size)
                          new_buffer (unat len)))
        (\<lambda>m. let s = record_event (Free (ref_counter sb)) (set_blocks m s) in
      bind_fault (fault_in s (free (blocks (mem s)) (ref_counter sb)))
        (\<lambda>m. let s = set_blocks m s in
      Inr (s\<lparr>mem := (mem s)\<lparr>slice_buffers := (slice_buffers (mem s))
                 (slice_buffer_p \<mapsto>
                    \<lparr>ref_counter = new_ref_counter,
                     length_field = len,
                     data = new_ref_counter + struct_size\<rparr>)\<rparr>\<rparr>)))))"

text \<open>
  \<^verbatim>\<open>unaryCall_hook\<close>. The buffer's length is narrowed to \<^verbatim>\<open>jsize\<close> for \<^verbatim>\<open>NewByteArray\<close>,
  which returns null for a negative length; \<^verbatim>\<open>SetByteArrayRegion\<close> then reads that
  many bytes at \<^verbatim>\<open>slice_buffer->data\<close>.
\<close>

definition unaryCall_hook ::
  "env \<Rightarrow> unary_args \<Rightarrow> process \<Rightarrow> (fault \<times> process) + (addr \<times> process)" where
  "unaryCall_hook e a s =
     bind_fault (fault_in s (deref (byte_buffer_ptrs (mem s)) (buffer_ptr a))) (\<lambda>bb.
     bind_fault (fault_in s (deref (byte_buffers (mem s)) bb)) (\<lambda>b.
     bind_fault (fault_in s (deref (slice_buffers (mem s)) (slice_buffer b))) (\<lambda>sb.
       if ref_counter sb = 0 then Inr (call_original e a s)
       else if \<not> thread_attached e then Inl (NullDeref, s)
       else
         let n = (ucast (length_field sb) :: 32 word) in
         if sint n < 0 then Inl (JniError, s)
         else
           let s = record_event (SetByteArrayRegion (data sb) (unat n)) s in
           case read_bytes (blocks (mem s)) (data sb) (unat n) of
             None \<Rightarrow> Inl (OutOfBounds, s)
           | Some jni_buffer_array \<Rightarrow>
               let s = record_event (OnNativeUnaryCall (uri a) jni_buffer_array) s in
               case onNativeUnaryCall e (uri a) jni_buffer_array of
                 None \<Rightarrow> Inr (call_original e a s)
               | Some native_request_data_object \<Rightarrow>
                   if canceled native_request_data_object then Inr (0, s)
                   else
                     case buffer native_request_data_object of
                       None \<Rightarrow> Inl (JniError, s)
                     | Some new_buffer \<Rightarrow>
                         bind_fault (rewrite_slice_buffer e (slice_buffer b) sb new_buffer s)
                           (\<lambda>s. Inr (call_original e a s)))))"

section \<open>Concrete descriptors\<close>

text \<open>
  Three descriptors on which the file-status hook is run: 7 is a file in the metrics
  queue directory, 8 is that directory itself, 12 is a companion-content file.
\<close>

definition ex_queue_file :: string where
  "ex_queue_file = ''/data/user/0/com.snapchat.android/files/blizzardv2/queues/q1''"

definition ex_queue_dir :: string where
  "ex_queue_dir = ''/data/user/0/com.snapchat.android/files/blizzardv2/queues''"

definition ex_content_file :: string where
  "ex_content_file =
     ''/data/user/0/com.snapchat.android/files/com.snap.file_manager_4_SCContent_x/a.bin''"

definition ex_links :: "string \<Rightarrow> string option" where
  "ex_links path =
     (if path = ''/proc/self/fd/7'' then Some ex_queue_file
      else if path = ''/proc/self/fd/8'' then Some ex_queue_dir
      else if path = ''/proc/self/fd/12'' then Some ex_content_file
      else None)"

definition ex_fs :: "nat fstat_state" where
  "ex_fs =
     \<lparr>stat_buf = 5,
      files = [ex_queue_file \<mapsto> File, ex_queue_dir \<mapsto> Directory, ex_content_file \<mapsto> File],
      unlink_refused = {},
      calls = []\<rparr>"

text \<open>An original \<^verbatim>\<open>fstat\<close> that succeeds and writes the structure.\<close>

definition ex_fstat_original :: "32 word \<Rightarrow> nat \<Rightarrow> int \<times> nat" where
  "ex_fstat_original fd st = (0, Suc st)"

section \<open>A concrete process\<close>

text \<open>
  A small heap on which the hook is run: three buffer pointers, each to a byte buffer
  and its slice buffer. The first slice buffer's block has a header of 4 bytes and a
  payload of 3, the second a header of 6 bytes and a payload of 2, the third has a
  null \<open>ref_counter\<close>.
\<close>

definition ex_heap :: heap where
  "ex_heap =
     \<lparr>byte_buffer_ptrs = [0x100 \<mapsto> 0x200, 0x110 \<mapsto> 0x210, 0x120 \<mapsto> 0x220],
      byte_buffers = [0x200 \<mapsto> \<lparr>slice_buffer = 0x300\<rparr>,
                      0x210 \<mapsto> \<lparr>slice_buffer = 0x310\<rparr>,
                      0x220 \<mapsto> \<lparr>slice_buffer = 0x320\<rparr>],
      slice_buffers =
        [0x300 \<mapsto> \<lparr>ref_counter = 0x1000, length_field = 3, data = 0x1004\<rparr>,
         0x310 \<mapsto> \<lparr>ref_counter = 0x3000, length_field = 2, data = 0x3006\<rparr>,
         0x320 \<mapsto> \<lparr>ref_counter = 0, length_field = 2, data = 0x5000\<rparr>],
      blocks = [(0x1000, [0xA1, 0xA2, 0xA3, 0xA4, 1, 2, 3]),
                (0x3000, [0xB1, 0xB2, 0xB3, 0xB4, 0xB5, 0xB6, 7, 7])]\<rparr>"

definition ex_process :: process where
  "ex_process = \<lparr>mem = ex_heap, ref_counter_struct_size = None, trace = []\<rparr>"

definition ex_args :: "addr \<Rightarrow> unary_args" where
  "ex_args p = \<lparr>unk1 = 1, uri = ''/svc/Send'', buffer_ptr = p, unk4 = 4, unk5 = 5, unk6 = 6\<rparr>"

text \<open>
  Surroundings: the original returns \<open>0x77\<close> and leaves the heap alone; the
  allocator hands out \<open>0x2000\<close> first and \<open>0x4000\<close> next; the decision-maker rewrites
  the two payloads of the heap above and has no opinion on any other.
\<close>

definition ex_env :: env where
  "ex_env =
     \<lparr>unaryCall_original = (\<lambda>a h. (0x77, h)),
      onNativeUnaryCall = (\<lambda>u p.
         if p = [1, 2, 3] then Some \<lparr>canceled = False, buffer = Some [9, 8]\<rparr>
         else if p = [7, 7] then Some \<lparr>canceled = False, buffer = Some [5, 5, 5]\<rparr>
         else None),
      allocator = (\<lambda>m sz. if 0x2000 \<in> fst ` set m then 0x4000 else 0x2000),
      thread_attached = True\<rparr>"

text \<open>What a run of the hook left behind: its result, its fault, its state.\<close>

definition returned :: "('f \<times> 's) + ('r \<times> 's) \<Rightarrow> 'r option" where
  "returned x = (case x of Inl _ \<Rightarrow> None | Inr rs \<Rightarrow> Some (fst rs))"

definition faulted :: "('f \<times> 's) + ('r \<times> 's) \<Rightarrow> 'f option" where
  "faulted x = (case x of Inl fs \<Rightarrow> Some (fst fs) | Inr _ \<Rightarrow> None)"

definition final_state :: "('f \<times> 's) + ('r \<times> 's) \<Rightarrow> 's" where
  "final_state x = (case x of Inl fs \<Rightarrow> snd fs | Inr rs \<Rightarrow> snd rs)"

text \<open>The heaps handed to the original dispatch, and the addresses freed, in a trace.\<close>

fun dispatched :: "event list \<Rightarrow> heap list" where
  "dispatched [] = []"
| "dispatched (UnaryCallOriginal a h # evs) = h # dispatched evs"
| "dispatched (ev # evs) = dispatched evs"

fun freed :: "event list \<Rightarrow> addr list" where
  "freed [] = []"
| "freed (Free p # evs) = p # freed evs"
| "freed (ev # evs) = freed evs"

fun malloc_sizes :: "event list \<Rightarrow> 64 word list" where
  "malloc_sizes [] = []"
| "malloc_sizes (Malloc sz p # evs) = sz # malloc_sizes evs"
| "malloc_sizes (ev # evs) = malloc_sizes evs"

text \<open>The process after the hook has rewritten the first buffer.\<close>

definition ex_after_first :: process where
  "ex_after_first = final_state (unaryCall_hook ex_env (ex_args 0x100) ex_process)"

text \<open>
  The same surroundings with a decision-maker that cancels every request, with one
  that has no opinion, and with an allocator that is out of memory.
\<close>

definition ex_env_cancel :: env where
  "ex_env_cancel = ex_env\<lparr>onNativeUnaryCall := (\<lambda>u p. Some \<lparr>canceled = True, buffer = None\<rparr>)\<rparr>"

definition ex_env_no_opinion :: env where
  "ex_env_no_opinion = ex_env\<lparr>onNativeUnaryCall := (\<lambda>u p. None)\<rparr>"

definition ex_env_out_of_memory :: env where
  "ex_env_out_of_memory = ex_env\<lparr>allocator := (\<lambda>m sz. 0)\<rparr>"


text \<open>
  A buffer whose block has no header (\<open>data\<close> is \<open>ref_counter\<close>), a decision-maker that
  rewrites every payload to the empty one while the allocator is out of memory, and
  the heap in which the slice buffer has been nulled and its block freed.
\<close>

definition ex_heap_headerless :: heap where
  "ex_heap_headerless =
     \<lparr>byte_buffer_ptrs = [0x100 \<mapsto> 0x200],
      byte_buffers = [0x200 \<mapsto> \<lparr>slice_buffer = 0x300\<rparr>],
      slice_buffers = [0x300 \<mapsto> \<lparr>ref_counter = 0x1000, length_field = 3, data = 0x1000\<rparr>],
      blocks = [(0x1000, [1, 2, 3])]\<rparr>"

definition ex_process_headerless :: process where
  "ex_process_headerless =
     \<lparr>mem = ex_heap_headerless, ref_counter_struct_size = None, trace = []\<rparr>"

definition ex_env_empty_rewrite :: env where
  "ex_env_empty_rewrite = ex_env
     \<lparr>onNativeUnaryCall := (\<lambda>u p. Some \<lparr>canceled = False, buffer = Some []\<rparr>),
      allocator := (\<lambda>m sz. 0)\<rparr>"

definition ex_heap_nulled :: heap where
  "ex_heap_nulled = ex_heap_headerless
     \<lparr>blocks := [],
      slice_buffers := [0x300 \<mapsto> \<lparr>ref_counter = 0, length_field = 0, data = 0\<rparr>]\<rparr>"

text \<open>The heap after the first buffer has been rewritten, and after the second one too.\<close>

definition ex_heap_first :: heap where
  "ex_heap_first = ex_heap
     \<lparr>blocks := [(0x2000, [0xA1, 0xA2, 0xA3, 0xA4, 9, 8]),
                 (0x3000, [0xB1, 0xB2, 0xB3, 0xB4, 0xB5, 0xB6, 7, 7])],
      slice_buffers := (slice_buffers ex_heap)
        (0x300 \<mapsto> \<lparr>ref_counter = 0x2000, length_field = 2, data = 0x2004\<rparr>)\<rparr>"

definition ex_heap_second :: heap where
  "ex_heap_second = ex_heap_first
     \<lparr>blocks := [(0x4000, [0xB1, 0xB2, 0xB3, 0xB4, 5, 5, 5]),
                 (0x2000, [0xA1, 0xA2, 0xA3, 0xA4, 9, 8])],
      slice_buffers := (slice_buffers ex_heap_first)
        (0x310 \<mapsto> \<lparr>ref_counter = 0x4000, length_field = 3, data = 0x4004\<rparr>)\<rparr>"


section \<open>Properties of the file-status hook\<close>

lemma str_find_prefix: "str_find (pat @ ss) pat = Some 0"
proof (cases "pat @ ss")
  case Nil
  then show ?thesis by simp
next
  case (Cons c cs)
  have "take (length pat) (pat @ ss) = pat" by simp
  with Cons show ?thesis by simp
qed

lemma str_find_contains: "str_find (ps @ pat @ ss) pat \<noteq> None"
proof (induction ps)
  case Nil
  then show ?case by (simp add: str_find_prefix)
next
  case (Cons c ps)
  then show ?case by auto
qed

lemma str_find_occurs:
  "str_find s pat = Some i \<Longrightarrow> take (length pat) (drop i s) = pat \<and> i + length pat \<le> length s"
proof (induction s arbitrary: i)
  case Nil
  then show ?case by (simp split: if_splits)
next
  case (Cons c cs)
  show ?case
  proof (cases "take (length pat) (c # cs) = pat")
    case True
    with Cons.prems have "i = 0" by simp
    moreover have "length (take (length pat) (c # cs)) \<le> length (c # cs)"
      by simp
    with True have "length pat \<le> length (c # cs)"
      by simp
    ultimately show ?thesis using True by simp
  next
    case False
    with Cons.prems obtain j where j: "str_find cs pat = Some j" "i = Suc j"
      by auto
    from Cons.IH [OF j(1)] j(2) show ?thesis by simp
  qed
qed

lemma str_find_iff: "str_find s pat \<noteq> None \<longleftrightarrow> (\<exists>ps ss. s = ps @ pat @ ss)"
proof
  assume "str_find s pat \<noteq> None"
  then obtain i where i: "str_find s pat = Some i" by auto
  from str_find_occurs [OF i] have "s = take i s @ pat @ drop (i + length pat) s"
    by (metis append_take_drop_id drop_drop add.commute)
  then show "\<exists>ps ss. s = ps @ pat @ ss" by blast
next
  assume "\<exists>ps ss. s = ps @ pat @ ss"
  then obtain ps ss where "s = ps @ pat @ ss" by blast
  then show "str_find s pat \<noteq> None" using str_find_contains [of ps pat ss] by simp
qed

subsection \<open>What the array holds after the link has been read\<close>


lemma digit_char_not_NUL: "d < 10 \<Longrightarrow> digit_char d \<noteq> NUL"
proof -
  assume "d < 10"
  then have "d \<in> {0, 1, 2, 3, 4, 5, 6, 7, 8, 9}" by auto
  then show ?thesis by (auto simp: digit_char_def NUL_def)
qed

lemma dec_nat_no_NUL: "NUL \<notin> set (dec_nat n)"
proof (induction n rule: dec_nat.induct)
  case (1 n)
  show ?case
  proof (cases "n < 10")
    case True
    then show ?thesis
      using digit_char_not_NUL [of n] by (simp add: dec_nat.simps [of n])
  next
    case False
    have "n mod 10 < 10" by simp
    then have "digit_char (n mod 10) \<noteq> NUL" by (rule digit_char_not_NUL)
    with False "1.IH" show ?thesis
      by (simp add: dec_nat.simps [of n])
  qed
qed

lemma dec_nat_length: "0 < k \<Longrightarrow> n < 10 ^ k \<Longrightarrow> length (dec_nat n) \<le> k"
proof (induction k arbitrary: n)
  case 0
  then show ?case by simp
next
  case (Suc k)
  show ?case
  proof (cases "n < 10")
    case True
    then show ?thesis by (simp add: dec_nat.simps [of n])
  next
    case False
    with Suc.prems have k: "0 < k"
      by (cases k) auto
    from Suc.prems have "n div 10 < 10 ^ k"
      by (simp add: less_mult_imp_div_less mult.commute)
    with k have "length (dec_nat (n div 10)) \<le> k" by (rule Suc.IH)
    with False show ?thesis by (simp add: dec_nat.simps [of n])
  qed
qed

lemma dec_int_no_NUL: "NUL \<notin> set (dec_int i)"
  using dec_nat_no_NUL [of "nat i"] dec_nat_no_NUL [of "nat (- i)"]
  by (auto simp: dec_int_def NUL_def)

lemma dec_int_sint_length: "length (dec_int (sint (fd :: 32 word))) \<le> 11"
proof -
  have lo: "- (2 ^ 31) \<le> sint fd" and hi: "sint fd < 2 ^ 31"
    using sint_ge [of fd] sint_lt [of fd] by simp_all
  have b: "nat \<bar>sint fd\<bar> < 10 ^ 10"
    using lo hi by simp
  have "length (dec_nat (nat \<bar>sint fd\<bar>)) \<le> 10"
    using dec_nat_length [of 10, OF _ b] by simp
  then show ?thesis
    by (auto simp: dec_int_def abs_if)
qed

lemma proc_fd_path_length: "length (proc_fd_path fd) \<le> 25"
  using dec_int_sint_length [of fd] by (simp add: proc_fd_path_def)

lemma proc_fd_path_no_NUL: "NUL \<notin> set (proc_fd_path fd)"
  using dec_int_no_NUL [of "sint fd"] by (simp add: proc_fd_path_def NUL_def)

lemma c_str_terminated: "NUL \<notin> set t \<Longrightarrow> c_str (t @ NUL # rest) = t"
  by (auto simp: c_str_def takeWhile_tail)

lemma snprintf_proc_fd_path:
  "snprintf (memset_zero 256) (proc_fd_path fd) =
     proc_fd_path fd @ replicate (256 - length (proc_fd_path fd)) NUL"
proof -
  have l: "length (proc_fd_path fd) \<le> 25" by (rule proc_fd_path_length)
  then have "replicate (256 - length (proc_fd_path fd)) NUL =
      NUL # replicate (255 - length (proc_fd_path fd)) NUL"
    by (cases "256 - length (proc_fd_path fd)") auto
  with l show ?thesis
    by (simp add: snprintf_def memset_zero_def Let_def)
qed

lemma fd_name_target:
  assumes "links (proc_fd_path fd) = Some t"
    and "NUL \<notin> set t"
    and "length t < 256"
  shows "std_string (fd_name links fd) = Inr (t @ drop (length t) (proc_fd_path fd))"
proof -
  let ?p = "proc_fd_path fd"
  let ?buf = "?p @ replicate (256 - length ?p) NUL"
  have l: "length ?p \<le> 25" by (rule proc_fd_path_length)
  have nn: "NUL \<notin> set ?p" by (rule proc_fd_path_no_NUL)
  have rep: "replicate (256 - length ?p) NUL = NUL # replicate (255 - length ?p) NUL"
    using l by (cases "256 - length ?p") auto
  have cs: "c_str ?buf = ?p"
    unfolding rep using nn by (rule c_str_terminated)
  have name: "fd_name links fd = t @ drop (length t) ?buf"
    using assms(1,3) l cs snprintf_proc_fd_path [of fd]
    by (simp add: fd_name_def Let_def readlink_def proc_fd_path_def)
  have tail: "drop (length t) ?buf =
      drop (length t) ?p @ replicate (256 - max (length t) (length ?p)) NUL"
    using l assms(3) by (auto simp: max_def)
  have rep2: "replicate (256 - max (length t) (length ?p)) NUL =
      NUL # replicate (255 - max (length t) (length ?p)) NUL"
    using l assms(3) by (cases "256 - max (length t) (length ?p)") auto
  have nn2: "NUL \<notin> set (t @ drop (length t) ?p)"
    using assms(2) nn by (auto dest: in_set_dropD)
  have "c_str (fd_name links fd) = t @ drop (length t) ?p"
    unfolding name tail rep2 using c_str_terminated [OF nn2] by simp
  moreover have "NUL \<in> set (fd_name links fd)"
    unfolding name tail rep2 by simp
  ultimately show ?thesis
    by (simp add: std_string_def)
qed

text \<open>
  So the hook's \<^verbatim>\<open>fileName\<close> is the link's target whenever the target is free of NUL,
  shorter than the array and at least as long as the \<^verbatim>\<open>/proc/self/fd/\<close> path it
  overwrites. A shorter target is followed by what is left of that path; a target of
  256 characters or more fills the array, and \<^verbatim>\<open>std::string(name)\<close> reads past it.
\<close>

lemma fd_name_target_exact:
  assumes "links (proc_fd_path fd) = Some t"
    and "NUL \<notin> set t"
    and "length t < 256"
    and "length (proc_fd_path fd) \<le> length t"
  shows "std_string (fd_name links fd) = Inr t"
  using fd_name_target [of links fd t] assms by simp

lemma fd_name_overread:
  assumes "links (proc_fd_path fd) = Some t"
    and "NUL \<notin> set t"
    and "256 \<le> length t"
  shows "std_string (fd_name links fd) = Inl BufferOverread"
proof -
  let ?p = "proc_fd_path fd"
  let ?buf = "?p @ replicate (256 - length ?p) NUL"
  have l: "length ?p \<le> 25" by (rule proc_fd_path_length)
  have nn: "NUL \<notin> set ?p" by (rule proc_fd_path_no_NUL)
  have rep: "replicate (256 - length ?p) NUL = NUL # replicate (255 - length ?p) NUL"
    using l by (cases "256 - length ?p") auto
  have cs: "c_str ?buf = ?p"
    unfolding rep using nn by (rule c_str_terminated)
  have "fd_name links fd = take 256 t"
    using assms(1,3) l cs snprintf_proc_fd_path [of fd]
    by (simp add: fd_name_def Let_def readlink_def)
  moreover have "NUL \<notin> set (take 256 t)"
    using assms(2) by (auto dest: in_set_takeD)
  ultimately show ?thesis
    by (simp add: std_string_def)
qed

subsection \<open>The three branches\<close>

lemma std_string_Inr: "std_string buf = Inr p \<Longrightarrow> c_str buf = p"
  by (simp add: std_string_def split: if_splits)

lemma unlink_calls [simp]: "calls (unlink path s) = calls s"
  by (simp add: unlink_def)

lemma unlink_stat_buf [simp]: "stat_buf (unlink path s) = stat_buf s"
  by (simp add: unlink_def)

lemma fstat_hook_metrics_branch:
  assumes "disable_metrics cfg"
    and "std_string (fd_name links fd) = Inr p"
    and "str_find p ''files/blizzardv2/queues'' \<noteq> None"
  shows "fstat_hook cfg orig links fd s =
           Inr (- 1, unlink p (s\<lparr>calls := calls s @ [Unlink p]\<rparr>))"
proof -
  have "c_str (fd_name links fd) = p"
    using assms(2) by (rule std_string_Inr)
  then show ?thesis
    using assms by (simp add: fstat_hook_def)
qed

lemma ex_resolved:
  "std_string (fd_name ex_links 7) = Inr ex_queue_file"
  "std_string (fd_name ex_links 8) = Inr ex_queue_dir"
  "std_string (fd_name ex_links 12) = Inr ex_content_file"
  by (simp_all add: ex_links_def ex_queue_file_def ex_queue_dir_def ex_content_file_def
        std_string_def fd_name_def memset_zero_def snprintf_def readlink_def c_str_def
        proc_fd_path_def dec_int_def dec_nat.simps digit_char_def NUL_def)

lemma ex_markers:
  "ex_queue_file = ''/data/user/0/com.snapchat.android/'' @ ''files/blizzardv2/queues'' @ ''/q1''"
  "ex_queue_dir = ''/data/user/0/com.snapchat.android/'' @ ''files/blizzardv2/queues'' @ []"
  "ex_content_file = ''/data/user/0/com.snapchat.android/files/'' @
     ''com.snap.file_manager_4_SCContent'' @ ''_x/a.bin''"
  by (simp_all add: ex_queue_file_def ex_queue_dir_def ex_content_file_def)

lemma ex_finds:
  "str_find ex_queue_file ''files/blizzardv2/queues'' \<noteq> None"
  "str_find ex_queue_dir ''files/blizzardv2/queues'' \<noteq> None"
  "str_find ex_content_file ''files/blizzardv2/queues'' = None"
  "str_find ex_content_file ''com.snap.file_manager_4_SCContent'' \<noteq> None"
  "str_find ex_queue_file ''com.snap.file_manager_4_SCContent'' = None"
  by (simp_all add: ex_queue_file_def ex_queue_dir_def ex_content_file_def)

text \<open>
  Claim C7, as the code has it. When the suppress-metrics flag (\<open>disable_metrics\<close>) is
  set and the path the hook resolved for the descriptor contains
  \<^verbatim>\<open>files/blizzardv2/queues\<close>, the hook calls \<^verbatim>\<open>unlink\<close> on that path, discards its
  result and returns \<open>-1\<close>; the original \<^verbatim>\<open>fstat\<close> is not called (the only call added is
  the unlink) and the caller's structure is as it was. The name is gone afterwards
  when it named a file, not a directory, that the operating system does not refuse to
  unlink; in every other case the names are as they were.
\<close>

theorem fstat_hook_metrics_denied:
  assumes "disable_metrics cfg"
    and "std_string (fd_name links fd) = Inr p"
    and "p = ps @ ''files/blizzardv2/queues'' @ ss"
  shows "fstat_hook cfg orig links fd s =
           Inr (- 1,
                s\<lparr>files := (if files s p = Some File \<and> p \<notin> unlink_refused s
                              then (files s)(p := None) else files s),
                  calls := calls s @ [Unlink p]\<rparr>)"
proof -
  have "str_find p ''files/blizzardv2/queues'' \<noteq> None"
    unfolding assms(3) by (rule str_find_contains)
  with assms(1,2) have "fstat_hook cfg orig links fd s =
      Inr (- 1, unlink p (s\<lparr>calls := calls s @ [Unlink p]\<rparr>))"
    by (rule fstat_hook_metrics_branch)
  then show ?thesis
    by (simp add: unlink_def)
qed

theorem fstat_hook_metrics_denied_witness:
  "fstat_hook \<lparr>disable_bitmoji = False, disable_metrics = True\<rparr> ex_fstat_original ex_links 7 ex_fs =
     Inr (- 1, ex_fs\<lparr>files := (files ex_fs)(ex_queue_file := None),
                     calls := [Unlink ex_queue_file]\<rparr>) \<and>
   files ex_fs ex_queue_file = Some File \<and>
   ((files ex_fs)(ex_queue_file := None)) ex_queue_file = None"
proof -
  have h1: "disable_metrics \<lparr>disable_bitmoji = False, disable_metrics = True\<rparr>"
    by simp
  have f: "files ex_fs ex_queue_file = Some File" "ex_queue_file \<notin> unlink_refused ex_fs"
    "calls ex_fs = []"
    by (simp_all add: ex_fs_def ex_queue_file_def ex_queue_dir_def ex_content_file_def)
  show ?thesis
    using fstat_hook_metrics_denied [OF h1 ex_resolved(1) ex_markers(1),
        where orig = ex_fstat_original and s = ex_fs] f
    by simp
qed

text \<open>
  The claim as stated has the underlying file deleted on every such call. Descriptor 8
  is the queue directory itself: its path contains the marker, \<^verbatim>\<open>unlink\<close> fails on a
  directory, and the hook returns \<open>-1\<close> with the directory still there.
\<close>

theorem fstat_hook_metrics_denied_counterexample:
  "disable_metrics \<lparr>disable_bitmoji = False, disable_metrics = True\<rparr> \<and>
   std_string (fd_name ex_links 8) = Inr ex_queue_dir \<and>
   str_find ex_queue_dir ''files/blizzardv2/queues'' \<noteq> None \<and>
   files ex_fs ex_queue_dir = Some Directory \<and>
   fstat_hook \<lparr>disable_bitmoji = False, disable_metrics = True\<rparr> ex_fstat_original ex_links 8 ex_fs =
     Inr (- 1, ex_fs\<lparr>calls := [Unlink ex_queue_dir]\<rparr>) \<and>
   files (ex_fs\<lparr>calls := [Unlink ex_queue_dir]\<rparr>) ex_queue_dir = Some Directory"
proof -
  have h1: "disable_metrics \<lparr>disable_bitmoji = False, disable_metrics = True\<rparr>"
    by simp
  have d: "files ex_fs ex_queue_dir = Some Directory"
    by (simp add: ex_fs_def ex_queue_file_def ex_queue_dir_def ex_content_file_def)
  have c: "calls ex_fs = []"
    by (simp add: ex_fs_def)
  have run: "fstat_hook \<lparr>disable_bitmoji = False, disable_metrics = True\<rparr> ex_fstat_original
      ex_links 8 ex_fs = Inr (- 1, ex_fs\<lparr>calls := [Unlink ex_queue_dir]\<rparr>)"
    using fstat_hook_metrics_branch [OF h1 ex_resolved(2) ex_finds(2),
        where orig = ex_fstat_original and s = ex_fs] d c
    by (simp add: unlink_def)
  show ?thesis
    using h1 ex_resolved(2) ex_finds(2) d run by simp
qed

text \<open>
  Claim C8. When the metrics branch did not fire, the suppress-companion-feature flag
  (\<open>disable_bitmoji\<close>) is set and the resolved path contains
  \<^verbatim>\<open>com.snap.file_manager_4_SCContent\<close>, the hook returns \<open>-1\<close> and leaves the state as it
  was: no file is unlinked and the original \<^verbatim>\<open>fstat\<close> is not called.
\<close>

theorem fstat_hook_bitmoji_denied:
  assumes "disable_bitmoji cfg"
    and "std_string (fd_name links fd) = Inr p"
    and "\<not> (disable_metrics cfg \<and> str_find p ''files/blizzardv2/queues'' \<noteq> None)"
    and "p = ps @ ''com.snap.file_manager_4_SCContent'' @ ss"
  shows "fstat_hook cfg orig links fd s = Inr (- 1, s)"
proof -
  have "str_find p ''com.snap.file_manager_4_SCContent'' \<noteq> None"
    unfolding assms(4) by (rule str_find_contains)
  then show ?thesis
    using assms(1,2,3) by (auto simp: fstat_hook_def Let_def)
qed

theorem fstat_hook_bitmoji_denied_witness:
  "fstat_hook \<lparr>disable_bitmoji = True, disable_metrics = True\<rparr> (\<lambda>fd st. (0, Suc st))
     (\<lambda>p. if p = ''/proc/self/fd/12''
          then Some ''/data/data/com.snapchat.android/files/file_manager/com.snap.file_manager_4_SCContent_x/a.bin''
          else None)
     12 \<lparr>stat_buf = (5::nat),
        files = [''/data/data/com.snapchat.android/files/file_manager/com.snap.file_manager_4_SCContent_x/a.bin'' \<mapsto> File],
        unlink_refused = {},
        calls = []\<rparr>
   = Inr (- 1, \<lparr>stat_buf = 5,
        files = [''/data/data/com.snapchat.android/files/file_manager/com.snap.file_manager_4_SCContent_x/a.bin'' \<mapsto> File],
        unlink_refused = {},
        calls = []\<rparr>)"
proof -
  let ?t = "''/data/data/com.snapchat.android/files/file_manager/com.snap.file_manager_4_SCContent_x/a.bin''"
  let ?links = "\<lambda>p. if p = ''/proc/self/fd/12'' then Some ?t else None"
  let ?cfg = "\<lparr>disable_bitmoji = True, disable_metrics = True\<rparr>"
  have h1: "disable_bitmoji ?cfg"
    by simp
  have h2: "std_string (fd_name ?links 12) = Inr ?t"
    by (simp add: std_string_def fd_name_def memset_zero_def snprintf_def readlink_def c_str_def
        proc_fd_path_def dec_int_def dec_nat.simps digit_char_def NUL_def)
  have h3: "\<not> (disable_metrics ?cfg \<and> str_find ?t ''files/blizzardv2/queues'' \<noteq> None)"
    by simp
  have h4: "?t = ''/data/data/com.snapchat.android/files/file_manager/'' @
      ''com.snap.file_manager_4_SCContent'' @ ''_x/a.bin''"
    by simp
  show ?thesis
    using fstat_hook_bitmoji_denied [OF h1 h2 h3 h4, where orig = "\<lambda>fd st. (0, Suc st)"
        and s = "\<lparr>stat_buf = (5::nat), files = [?t \<mapsto> File], unlink_refused = {},
          calls = []\<rparr>"]
    by simp
qed

text \<open>
  Claim C9. On either denial branch the hook returns \<open>-1\<close> with the caller's
  \<^verbatim>\<open>struct stat\<close> unchanged and without a call of the original; otherwise it forwards,
  and the structure is what the original left in it.
\<close>

theorem fstat_hook_stat_buf_frame:
  assumes "std_string (fd_name links fd) = Inr p"
  shows "(case fstat_hook cfg orig links fd s of
            Inl f \<Rightarrow> False
          | Inr (r, s') \<Rightarrow>
              if (disable_metrics cfg \<and> str_find p ''files/blizzardv2/queues'' \<noteq> None) \<or>
                 (disable_bitmoji cfg \<and> str_find p ''com.snap.file_manager_4_SCContent'' \<noteq> None)
              then r = - 1 \<and> stat_buf s' = stat_buf s \<and>
                   FstatOriginal fd \<notin> set (drop (length (calls s)) (calls s'))
              else (r, stat_buf s') = orig fd (stat_buf s) \<and>
                   calls s' = calls s @ [FstatOriginal fd] \<and> files s' = files s)"
  using assms by (auto simp: fstat_hook_def Let_def split: prod.splits)

text \<open>
  The theorem on three runs from the same state, whose structure holds 5 and whose
  original would write 6: the metrics denial on descriptor 7 and the companion denial
  on descriptor 12 return \<open>-1\<close> with the structure still 5 and no call of the original;
  with both flags clear descriptor 7 is forwarded, and the structure is 6.
\<close>

theorem fstat_hook_stat_buf_frame_witness:
  "(case fstat_hook \<lparr>disable_bitmoji = False, disable_metrics = True\<rparr> ex_fstat_original
      ex_links 7 ex_fs of
      Inl f \<Rightarrow> False
    | Inr (r, s') \<Rightarrow> r = - 1 \<and> stat_buf s' = 5 \<and> FstatOriginal 7 \<notin> set (calls s')) \<and>
   (case fstat_hook \<lparr>disable_bitmoji = True, disable_metrics = False\<rparr> ex_fstat_original
      ex_links 12 ex_fs of
      Inl f \<Rightarrow> False
    | Inr (r, s') \<Rightarrow> r = - 1 \<and> stat_buf s' = 5 \<and> FstatOriginal 12 \<notin> set (calls s')) \<and>
   (case fstat_hook \<lparr>disable_bitmoji = False, disable_metrics = False\<rparr> ex_fstat_original
      ex_links 7 ex_fs of
      Inl f \<Rightarrow> False
    | Inr (r, s') \<Rightarrow> r = 0 \<and> stat_buf s' = 6 \<and> calls s' = [FstatOriginal 7])"
proof -
  have s: "stat_buf ex_fs = 5" "calls ex_fs = []"
    by (simp_all add: ex_fs_def)
  have a: "case fstat_hook \<lparr>disable_bitmoji = False, disable_metrics = True\<rparr> ex_fstat_original
      ex_links 7 ex_fs of
      Inl f \<Rightarrow> False
    | Inr (r, s') \<Rightarrow> r = - 1 \<and> stat_buf s' = 5 \<and> FstatOriginal 7 \<notin> set (calls s')"
    using fstat_hook_stat_buf_frame [OF ex_resolved(1),
        where cfg = "\<lparr>disable_bitmoji = False, disable_metrics = True\<rparr>"
        and orig = ex_fstat_original and s = ex_fs] ex_finds(1) s
    by (simp split: sum.splits prod.splits)
  have b: "case fstat_hook \<lparr>disable_bitmoji = True, disable_metrics = False\<rparr> ex_fstat_original
      ex_links 12 ex_fs of
      Inl f \<Rightarrow> False
    | Inr (r, s') \<Rightarrow> r = - 1 \<and> stat_buf s' = 5 \<and> FstatOriginal 12 \<notin> set (calls s')"
    using fstat_hook_stat_buf_frame [OF ex_resolved(3),
        where cfg = "\<lparr>disable_bitmoji = True, disable_metrics = False\<rparr>"
        and orig = ex_fstat_original and s = ex_fs] ex_finds(4) s
    by (simp split: sum.splits prod.splits)
  have c: "case fstat_hook \<lparr>disable_bitmoji = False, disable_metrics = False\<rparr> ex_fstat_original
      ex_links 7 ex_fs of
      Inl f \<Rightarrow> False
    | Inr (r, s') \<Rightarrow> r = 0 \<and> stat_buf s' = 6 \<and> calls s' = [FstatOriginal 7]"
    using fstat_hook_stat_buf_frame [OF ex_resolved(1),
        where cfg = "\<lparr>disable_bitmoji = False, disable_metrics = False\<rparr>"
        and orig = ex_fstat_original and s = ex_fs] s
    by (simp add: ex_fstat_original_def split: sum.splits prod.splits)
  show ?thesis
    using a b c by (intro conjI)
qed

subsection \<open>In terms of the link's target\<close>

text \<open>
  The metrics branch stated on the target of the descriptor's link, where the array
  holds exactly the target; and the run on a target that fills the array.
\<close>

lemma fstat_hook_target_denied:
  assumes "disable_metrics cfg"
    and "links (proc_fd_path fd) = Some t"
    and "NUL \<notin> set t"
    and "length (proc_fd_path fd) \<le> length t"
    and "length t < 256"
    and "t = ps @ ''files/blizzardv2/queues'' @ ss"
  shows "fstat_hook cfg orig links fd s =
           Inr (- 1, unlink t (s\<lparr>calls := calls s @ [Unlink t]\<rparr>))"
proof -
  have r: "std_string (fd_name links fd) = Inr t"
    using fd_name_target_exact [of links fd t] assms(2,3,4,5) by simp
  have "str_find t ''files/blizzardv2/queues'' \<noteq> None"
    unfolding assms(6) by (rule str_find_contains)
  with assms(1) r show ?thesis
    by (rule fstat_hook_metrics_branch)
qed

lemma fstat_hook_overread:
  assumes "links (proc_fd_path fd) = Some t"
    and "NUL \<notin> set t"
    and "256 \<le> length t"
  shows "fstat_hook cfg orig links fd s = Inl BufferOverread"
  using fd_name_overread [of links fd t] assms by (simp add: fstat_hook_def)

section \<open>Properties of the unary-call hook\<close>

subsection \<open>Sequencing, the event trace and integer widths\<close>

lemma bind_fault_simps [simp]:
  "bind_fault (Inl f) k = Inl f"
  "bind_fault (Inr v) k = k v"
  by (simp_all add: bind_fault_def)

lemma fault_in_simps [simp]:
  "fault_in s (Inl f) = Inl (f, s)"
  "fault_in s (Inr v) = Inr v"
  by (simp_all add: fault_in_def)

lemma record_event_simps [simp]:
  "mem (record_event ev s) = mem s"
  "ref_counter_struct_size (record_event ev s) = ref_counter_struct_size s"
  "trace (record_event ev s) = trace s @ [ev]"
  by (simp_all add: record_event_def)

lemma set_blocks_simps [simp]:
  "blocks (mem (set_blocks m s)) = m"
  "byte_buffer_ptrs (mem (set_blocks m s)) = byte_buffer_ptrs (mem s)"
  "byte_buffers (mem (set_blocks m s)) = byte_buffers (mem s)"
  "slice_buffers (mem (set_blocks m s)) = slice_buffers (mem s)"
  "ref_counter_struct_size (set_blocks m s) = ref_counter_struct_size s"
  "trace (set_blocks m s) = trace s"
  by (simp_all add: set_blocks_def)

lemma jsize_of_length:
  fixes x :: "64 word"
  assumes "unat x < 2 ^ 31"
  shows "\<not> sint (ucast x :: 32 word) < 0" and "unat (ucast x :: 32 word) = unat x"
proof -
  have "unat x < 2 ^ 32"
    using assms by simp
  then show "unat (ucast x :: 32 word) = unat x"
    by (simp add: unsigned_ucast_eq take_bit_nat_eq_self)
  have "int (unat x) < int (2 ^ 31)"
    using assms by (simp only: of_nat_less_iff)
  then have "uint x < 2 ^ 31"
    by (simp only: uint_nat of_nat_power of_nat_numeral)
  moreover have "- (2 ^ 31) \<le> uint x"
  proof -
    have "- (2 ^ 31) \<le> (0::int)" by simp
    also have "0 \<le> uint x" by simp
    finally show ?thesis .
  qed
  ultimately have "signed_take_bit 31 (uint x) = uint x"
    by (rule signed_take_bit_int_eq_self [rotated])
  then have "sint (ucast x :: 32 word) = uint x"
    by (simp add: signed_ucast_eq)
  then show "\<not> sint (ucast x :: 32 word) < 0"
    by simp
qed

lemma widen_array_length:
  assumes "L < 2 ^ 31"
  shows "(scast (word_of_nat L :: 32 word) :: 64 word) = word_of_nat L"
proof -
  have i: "int L < 2 ^ 31"
  proof -
    have "int L < int (2 ^ 31)" using assms by (simp only: of_nat_less_iff)
    then show ?thesis by (simp only: of_nat_power of_nat_numeral)
  qed
  have lo: "- (2 ^ 31) \<le> int L"
  proof -
    have "- (2 ^ 31) \<le> (0::int)" by simp
    also have "0 \<le> int L" by simp
    finally show ?thesis .
  qed
  have "signed_take_bit 31 (int L) = int L"
    using lo i by (rule signed_take_bit_int_eq_self)
  then have "sint (word_of_nat L :: 32 word) = int L"
    by (simp add: signed_of_nat)
  then have "(scast (word_of_nat L :: 32 word) :: 64 word) = word_of_int (int L)"
    by (simp add: scast_eq)
  then show ?thesis by simp
qed

lemma unat_array_length:
  assumes "L < 2 ^ 31"
  shows "unat (word_of_nat L :: 64 word) = L"
proof -
  have "(2::nat) ^ 31 < 2 ^ 64" by simp
  with assms have "L < 2 ^ 64" by (rule less_trans)
  then show ?thesis by (simp add: unat_of_nat)
qed

lemma unat_header_plus:
  fixes hs :: "64 word"
  assumes "unat hs + L < 2 ^ 64"
  shows "unat (hs + word_of_nat L) = unat hs + L"
proof -
  have L: "L < 2 ^ 64" using assms by simp
  then have u: "unat (word_of_nat L :: 64 word) = L" by (simp add: unat_of_nat)
  have "unat hs + unat (word_of_nat L :: 64 word) < 2 ^ LENGTH(64)"
    using assms u by simp
  then have "unat (hs + word_of_nat L) = unat hs + unat (word_of_nat L :: 64 word)"
    by (simp only: unat_add_lem)
  with u show ?thesis by simp
qed

subsection \<open>Blocks\<close>

lemma read_bytes_length: "read_bytes m p k = Some xs \<Longrightarrow> length xs = k"
  by (induction m p k rule: read_bytes.induct) (auto split: if_splits)

lemma read_bytes_fresh:
  assumes "length zs \<le> unat (p - n)"
    and "read_bytes m p k = Some xs"
  shows "read_bytes ((n, zs) # m) p k = Some xs"
proof (cases "unat (p - n) + k \<le> length zs")
  case True
  with assms(1) have "k = 0" by simp
  moreover from this assms(2) have "xs = []"
    using read_bytes_length [of m p k xs] by simp
  ultimately show ?thesis using True by simp
next
  case False
  with assms(2) show ?thesis by simp
qed

lemma malloc_success:
  "alloc m sz = n \<Longrightarrow> n \<noteq> 0 \<Longrightarrow> malloc alloc m sz = (n, (n, replicate (unat sz) 0) # m)"
  by (simp add: malloc_def)

lemma malloc_failure: "alloc m sz = 0 \<Longrightarrow> malloc alloc m sz = (0, m)"
  by (simp add: malloc_def)

lemma memcpy_header:
  assumes "n \<noteq> 0" and "r \<noteq> 0"
    and "read_bytes m r k = Some hdr"
    and "length zs \<le> unat (r - n)"
    and "k \<le> length zs"
  shows "memcpy ((n, zs) # m) n r k = Inr ((n, hdr @ drop k zs) # m)"
proof -
  have len: "length hdr = k"
    using assms(3) by (rule read_bytes_length)
  have rd: "read_bytes ((n, zs) # m) r k = Some hdr"
    using assms(4,3) by (rule read_bytes_fresh)
  have "write_bytes ((n, zs) # m) n hdr = Some ((n, hdr @ drop k zs) # m)"
    using len assms(5) by simp
  with rd assms(1,2) len show ?thesis
    by (cases "k = 0") (simp_all add: memcpy_def del: read_bytes.simps write_bytes.simps)
qed

lemma memcpy_array_payload:
  fixes hs :: "64 word"
  assumes "n + hs \<noteq> 0"
    and "length hdr = unat hs"
    and "length rest = length P"
  shows "memcpy_array ((n, hdr @ rest) # m) (n + hs) P (length P) = Inr ((n, hdr @ P) # m)"
  using assms by (cases "P = []") (simp_all add: memcpy_array_def)

lemma free_old:
  assumes "r \<noteq> 0" and "r \<in> fst ` set m" and "n \<noteq> r"
  shows "free ((n, bs) # m) r = Inr ((n, bs) # filter (\<lambda>blk. fst blk \<noteq> r) m)"
  using assms by (simp add: free_def)

subsection \<open>The paths that leave the buffer alone\<close>

text \<open>
  Claim C10. The hook dereferences \<^verbatim>\<open>buffer_ptr\<close>, the byte buffer it points to and that
  buffer's \<^verbatim>\<open>slice_buffer\<close> before anything else and without a guard: if one of the three
  is null the run is a null dereference, in the state it started in and whatever the
  surroundings are; a run that returns had all three non-null.
\<close>

theorem unaryCall_hook_null_pointers:
  "(buffer_ptr a = 0 \<or>
    byte_buffer_ptrs (mem s) (buffer_ptr a) = Some 0 \<or>
    (\<exists>bb b. byte_buffer_ptrs (mem s) (buffer_ptr a) = Some bb \<and>
       byte_buffers (mem s) bb = Some b \<and> slice_buffer b = 0)
    \<longrightarrow> unaryCall_hook e a s = Inl (NullDeref, s)) \<and>
   ((\<exists>r. unaryCall_hook e a s = Inr r) \<longrightarrow>
      buffer_ptr a \<noteq> 0 \<and>
      (\<exists>bb b. byte_buffer_ptrs (mem s) (buffer_ptr a) = Some bb \<and> bb \<noteq> 0 \<and>
         byte_buffers (mem s) bb = Some b \<and> slice_buffer b \<noteq> 0))"
  by (auto simp: unaryCall_hook_def deref_def split: option.splits if_splits)

theorem unaryCall_hook_null_pointers_witness:
  "unaryCall_hook ex_env (ex_args 0) ex_process = Inl (NullDeref, ex_process) \<and>
   returned (unaryCall_hook ex_env (ex_args 0x120) ex_process) = Some 0x77 \<and>
   buffer_ptr (ex_args 0x120) \<noteq> 0"
proof -
  have r: "unaryCall_hook ex_env (ex_args 0x120) ex_process =
      Inr (0x77, ex_process\<lparr>trace := [UnaryCallOriginal (ex_args 0x120) ex_heap]\<rparr>)"
    by (simp add: unaryCall_hook_def deref_def call_original_def ex_env_def ex_process_def
        ex_heap_def ex_args_def)
  have n: "buffer_ptr (ex_args 0) = 0"
    by (simp add: ex_args_def)
  show ?thesis
    using unaryCall_hook_null_pointers [of "ex_args 0" ex_process ex_env] n
      unaryCall_hook_null_pointers [of "ex_args 0x120" ex_process ex_env] r
    by (simp add: returned_def)
qed

text \<open>
  Claim C4. When the slice buffer's \<open>ref_counter\<close> is zero (null), the hook returns what
  the original dispatch returns, and the only event it adds is the call of the original
  with the heap as it found it: the payload is not read, the decision-maker is not
  called, nothing is allocated or freed.
\<close>

theorem unaryCall_hook_ref_counter_zero:
  assumes "deref (byte_buffer_ptrs (mem s)) (buffer_ptr a) = Inr bb"
    and "deref (byte_buffers (mem s)) bb = Inr b"
    and "deref (slice_buffers (mem s)) (slice_buffer b) = Inr sb"
    and "ref_counter sb = 0"
  shows "unaryCall_hook e a s =
           Inr (fst (unaryCall_original e a (mem s)),
                s\<lparr>mem := snd (unaryCall_original e a (mem s)),
                  trace := trace s @ [UnaryCallOriginal a (mem s)]\<rparr>)"
  using assms by (simp add: unaryCall_hook_def call_original_def split: prod.splits)

theorem unaryCall_hook_ref_counter_zero_witness:
  "returned (unaryCall_hook ex_env (ex_args 0x120) ex_process) = Some 0x77 \<and>
   mem (final_state (unaryCall_hook ex_env (ex_args 0x120) ex_process)) = ex_heap \<and>
   trace (final_state (unaryCall_hook ex_env (ex_args 0x120) ex_process)) =
     [UnaryCallOriginal (ex_args 0x120) ex_heap]"
proof -
  have h1: "deref (byte_buffer_ptrs (mem ex_process)) (buffer_ptr (ex_args 0x120)) = Inr 0x220"
    by (simp add: deref_def ex_process_def ex_heap_def ex_args_def)
  have h2: "deref (byte_buffers (mem ex_process)) 0x220 = Inr \<lparr>slice_buffer = 0x320\<rparr>"
    by (simp add: deref_def ex_process_def ex_heap_def)
  have h3: "deref (slice_buffers (mem ex_process)) (slice_buffer \<lparr>slice_buffer = 0x320\<rparr>) =
      Inr \<lparr>ref_counter = 0, length_field = 2, data = 0x5000\<rparr>"
    by (simp add: deref_def ex_process_def ex_heap_def)
  have h4: "ref_counter \<lparr>ref_counter = 0, length_field = 2, data = 0x5000\<rparr> = 0"
    by simp
  show ?thesis
    using unaryCall_hook_ref_counter_zero [OF h1 h2 h3 h4, of ex_env]
    by (simp add: returned_def final_state_def ex_env_def ex_process_def)
qed

text \<open>
  Claim C5. When the decision-maker returns an object whose \<open>canceled\<close> field is set, the
  hook returns null; the heap (and with it the slice buffer and its block) is as it
  was, and the events added are the read of the payload and the call of the
  decision-maker: the original dispatch is not called, nothing is allocated or freed.
\<close>

theorem unaryCall_hook_cancel:
  assumes "deref (byte_buffer_ptrs (mem s)) (buffer_ptr a) = Inr bb"
    and "deref (byte_buffers (mem s)) bb = Inr b"
    and "deref (slice_buffers (mem s)) (slice_buffer b) = Inr sb"
    and "ref_counter sb \<noteq> 0"
    and "thread_attached e"
    and "unat (length_field sb) < 2 ^ 31"
    and "read_bytes (blocks (mem s)) (data sb) (unat (length_field sb)) = Some payload"
    and "onNativeUnaryCall e (uri a) payload = Some d"
    and "canceled d"
  shows "unaryCall_hook e a s =
           Inr (0, s\<lparr>trace := trace s @
                    [SetByteArrayRegion (data sb) (unat (length_field sb)),
                     OnNativeUnaryCall (uri a) payload]\<rparr>)"
  using assms jsize_of_length [OF assms(6)]
  by (simp add: unaryCall_hook_def record_event_def)

theorem unaryCall_hook_cancel_witness:
  "returned (unaryCall_hook ex_env_cancel (ex_args 0x100) ex_process) = Some 0 \<and>
   mem (final_state (unaryCall_hook ex_env_cancel (ex_args 0x100) ex_process)) = ex_heap \<and>
   trace (final_state (unaryCall_hook ex_env_cancel (ex_args 0x100) ex_process)) =
     [SetByteArrayRegion 0x1004 3, OnNativeUnaryCall ''/svc/Send'' [1, 2, 3]]"
proof -
  let ?sb = "\<lparr>ref_counter = 0x1000, length_field = 3, data = 0x1004\<rparr>"
  let ?d = "\<lparr>canceled = True, buffer = None\<rparr>"
  have h1: "deref (byte_buffer_ptrs (mem ex_process)) (buffer_ptr (ex_args 0x100)) = Inr 0x200"
    by (simp add: deref_def ex_process_def ex_heap_def ex_args_def)
  have h2: "deref (byte_buffers (mem ex_process)) 0x200 = Inr \<lparr>slice_buffer = 0x300\<rparr>"
    by (simp add: deref_def ex_process_def ex_heap_def)
  have h3: "deref (slice_buffers (mem ex_process)) (slice_buffer \<lparr>slice_buffer = 0x300\<rparr>) =
      Inr ?sb"
    by (simp add: deref_def ex_process_def ex_heap_def)
  have h4: "ref_counter ?sb \<noteq> 0"
    by simp
  have h5: "thread_attached ex_env_cancel"
    by (simp add: ex_env_cancel_def ex_env_def)
  have h6: "unat (length_field ?sb) < 2 ^ 31"
    by simp
  have h7: "read_bytes (blocks (mem ex_process)) (data ?sb) (unat (length_field ?sb)) =
      Some [1, 2, 3]"
    by (simp add: ex_process_def ex_heap_def)
  have h8: "onNativeUnaryCall ex_env_cancel (uri (ex_args 0x100)) [1, 2, 3] = Some ?d"
    by (simp add: ex_env_cancel_def ex_env_def)
  have h9: "canceled ?d"
    by simp
  show ?thesis
    using unaryCall_hook_cancel [OF h1 h2 h3 h4 h5 h6 h7 h8 h9]
    by (simp add: returned_def final_state_def ex_process_def ex_args_def)
qed

text \<open>
  Claim C6. When the decision-maker returns no object, the original dispatch is called
  once, with the heap exactly as the hook found it (so the slice buffer's three fields
  and the payload bytes are unchanged), and its result is the hook's result.
\<close>

theorem unaryCall_hook_no_opinion:
  assumes "deref (byte_buffer_ptrs (mem s)) (buffer_ptr a) = Inr bb"
    and "deref (byte_buffers (mem s)) bb = Inr b"
    and "deref (slice_buffers (mem s)) (slice_buffer b) = Inr sb"
    and "ref_counter sb \<noteq> 0"
    and "thread_attached e"
    and "unat (length_field sb) < 2 ^ 31"
    and "read_bytes (blocks (mem s)) (data sb) (unat (length_field sb)) = Some payload"
    and "onNativeUnaryCall e (uri a) payload = None"
  shows "unaryCall_hook e a s =
           Inr (fst (unaryCall_original e a (mem s)),
                s\<lparr>mem := snd (unaryCall_original e a (mem s)),
                  trace := trace s @
                    [SetByteArrayRegion (data sb) (unat (length_field sb)),
                     OnNativeUnaryCall (uri a) payload,
                     UnaryCallOriginal a (mem s)]\<rparr>)"
  using assms jsize_of_length [OF assms(6)]
  by (simp add: unaryCall_hook_def call_original_def record_event_def split: prod.splits)

theorem unaryCall_hook_no_opinion_witness:
  "returned (unaryCall_hook ex_env_no_opinion (ex_args 0x100) ex_process) = Some 0x77 \<and>
   mem (final_state (unaryCall_hook ex_env_no_opinion (ex_args 0x100) ex_process)) = ex_heap \<and>
   trace (final_state (unaryCall_hook ex_env_no_opinion (ex_args 0x100) ex_process)) =
     [SetByteArrayRegion 0x1004 3, OnNativeUnaryCall ''/svc/Send'' [1, 2, 3],
      UnaryCallOriginal (ex_args 0x100) ex_heap]"
proof -
  let ?sb = "\<lparr>ref_counter = 0x1000, length_field = 3, data = 0x1004\<rparr>"
  have h1: "deref (byte_buffer_ptrs (mem ex_process)) (buffer_ptr (ex_args 0x100)) = Inr 0x200"
    by (simp add: deref_def ex_process_def ex_heap_def ex_args_def)
  have h2: "deref (byte_buffers (mem ex_process)) 0x200 = Inr \<lparr>slice_buffer = 0x300\<rparr>"
    by (simp add: deref_def ex_process_def ex_heap_def)
  have h3: "deref (slice_buffers (mem ex_process)) (slice_buffer \<lparr>slice_buffer = 0x300\<rparr>) =
      Inr ?sb"
    by (simp add: deref_def ex_process_def ex_heap_def)
  have h4: "ref_counter ?sb \<noteq> 0"
    by simp
  have h5: "thread_attached ex_env_no_opinion"
    by (simp add: ex_env_no_opinion_def ex_env_def)
  have h6: "unat (length_field ?sb) < 2 ^ 31"
    by simp
  have h7: "read_bytes (blocks (mem ex_process)) (data ?sb) (unat (length_field ?sb)) =
      Some [1, 2, 3]"
    by (simp add: ex_process_def ex_heap_def)
  have h8: "onNativeUnaryCall ex_env_no_opinion (uri (ex_args 0x100)) [1, 2, 3] = None"
    by (simp add: ex_env_no_opinion_def ex_env_def)
  show ?thesis
    using unaryCall_hook_no_opinion [OF h1 h2 h3 h4 h5 h6 h7 h8]
    by (simp add: returned_def final_state_def ex_env_no_opinion_def ex_env_def ex_process_def
        ex_args_def)
qed

subsection \<open>The rewrite\<close>

lemma rewrite_slice_buffer_success:
  fixes hs :: "64 word"
  assumes P: "length P < 2 ^ 31"
    and hs: "hs = (case ref_counter_struct_size s of
                     None \<Rightarrow> data sb - ref_counter sb | Some v \<Rightarrow> v)"
    and alloc: "allocator e (blocks (mem s)) (hs + word_of_nat (length P)) = n"
    and n0: "n \<noteq> 0"
    and range: "unat n + unat hs + length P < 2 ^ 64"
    and r0: "ref_counter sb \<noteq> 0"
    and live: "ref_counter sb \<in> fst ` set (blocks (mem s))"
    and distinct: "n \<noteq> ref_counter sb"
    and apart: "unat hs + length P \<le> unat (ref_counter sb - n)"
    and hdr: "read_bytes (blocks (mem s)) (ref_counter sb) (unat hs) = Some hdr"
  shows "rewrite_slice_buffer e sbp sb P s =
    Inr (s\<lparr>mem := (mem s)
            \<lparr>blocks := (n, hdr @ P) #
                filter (\<lambda>blk. fst blk \<noteq> ref_counter sb) (blocks (mem s)),
             slice_buffers := (slice_buffers (mem s))
               (sbp \<mapsto> \<lparr>ref_counter = n, length_field = word_of_nat (length P),
                         data = n + hs\<rparr>)\<rparr>,
           ref_counter_struct_size := Some hs,
           trace := trace s @
             [Malloc (hs + word_of_nat (length P)) n, Free (ref_counter sb)]\<rparr>)"
proof -
  let ?len = "word_of_nat (length P) :: 64 word"
  let ?m = "blocks (mem s)"
  let ?zs = "replicate (unat (hs + ?len)) (0 :: byte)"
  have len: "(scast (word_of_nat (length P) :: 32 word) :: 64 word) = ?len"
    using P by (rule widen_array_length)
  have ulen: "unat ?len = length P"
    using P by (rule unat_array_length)
  have sz: "unat (hs + ?len) = unat hs + length P"
    using range by (intro unat_header_plus) simp
  have m1: "malloc (allocator e) ?m (hs + ?len) = (n, (n, ?zs) # ?m)"
    using alloc n0 by (rule malloc_success)
  have lh: "length hdr = unat hs"
    using hdr by (rule read_bytes_length)
  let ?rest = "replicate (unat (hs + ?len) - unat hs) (0 :: byte)"
  have "memcpy ((n, ?zs) # ?m) n (ref_counter sb) (unat hs) =
      Inr ((n, hdr @ drop (unat hs) ?zs) # ?m)"
    using n0 r0 hdr apart sz by (intro memcpy_header) simp_all
  then have m2: "memcpy ((n, ?zs) # ?m) n (ref_counter sb) (unat hs) =
      Inr ((n, hdr @ ?rest) # ?m)"
    by simp
  have nhs: "n + hs \<noteq> 0"
  proof
    assume z: "n + hs = 0"
    have "unat n + unat hs < 2 ^ LENGTH(64)" using range by simp
    then have "unat (n + hs) = unat n + unat hs" by (simp only: unat_add_lem)
    with z have "unat n = 0" by simp
    then have "n = 0" by (simp add: unat_eq_0)
    with n0 show False by simp
  qed
  have m3: "memcpy_array ((n, hdr @ ?rest) # ?m) (n + hs) P (length P) =
      Inr ((n, hdr @ P) # ?m)"
    using nhs lh sz by (intro memcpy_array_payload) simp_all
  have m4: "free ((n, hdr @ P) # ?m) (ref_counter sb) =
      Inr ((n, hdr @ P) # filter (\<lambda>blk. fst blk \<noteq> ref_counter sb) ?m)"
    using r0 live distinct by (rule free_old)
  show ?thesis
    unfolding rewrite_slice_buffer_def Let_def len hs [symmetric]
    by (simp add: m1 m2 m3 m4 ulen set_blocks_def record_event_def
        del: read_bytes.simps write_bytes.simps)
qed

lemma unaryCall_hook_rewrite:
  fixes hs :: "64 word"
  assumes bb: "deref (byte_buffer_ptrs (mem s)) (buffer_ptr a) = Inr bb"
    and b: "deref (byte_buffers (mem s)) bb = Inr b"
    and sb: "deref (slice_buffers (mem s)) (slice_buffer b) = Inr sb"
    and r0: "ref_counter sb \<noteq> 0"
    and att: "thread_attached e"
    and len: "unat (length_field sb) < 2 ^ 31"
    and payload: "read_bytes (blocks (mem s)) (data sb) (unat (length_field sb)) = Some payload"
    and d: "onNativeUnaryCall e (uri a) payload = Some d"
    and nc: "\<not> canceled d"
    and buf: "buffer d = Some P"
    and P: "length P < 2 ^ 31"
    and hs: "hs = (case ref_counter_struct_size s of
                     None \<Rightarrow> data sb - ref_counter sb | Some v \<Rightarrow> v)"
    and alloc: "allocator e (blocks (mem s)) (hs + word_of_nat (length P)) = n"
    and n0: "n \<noteq> 0"
    and range: "unat n + unat hs + length P < 2 ^ 64"
    and live: "ref_counter sb \<in> fst ` set (blocks (mem s))"
    and distinct: "n \<noteq> ref_counter sb"
    and apart: "unat hs + length P \<le> unat (ref_counter sb - n)"
    and hdr: "read_bytes (blocks (mem s)) (ref_counter sb) (unat hs) = Some hdr"
    and h': "h' = (mem s)
            \<lparr>blocks := (n, hdr @ P) #
                filter (\<lambda>blk. fst blk \<noteq> ref_counter sb) (blocks (mem s)),
             slice_buffers := (slice_buffers (mem s))
               (slice_buffer b \<mapsto> \<lparr>ref_counter = n, length_field = word_of_nat (length P),
                         data = n + hs\<rparr>)\<rparr>"
  shows "unaryCall_hook e a s =
    Inr (fst (unaryCall_original e a h'),
         s\<lparr>mem := snd (unaryCall_original e a h'),
           ref_counter_struct_size := Some hs,
           trace := trace s @
             [SetByteArrayRegion (data sb) (unat (length_field sb)),
              OnNativeUnaryCall (uri a) payload,
              Malloc (hs + word_of_nat (length P)) n,
              Free (ref_counter sb),
              UnaryCallOriginal a h']\<rparr>)"
proof -
  let ?s2 = "s\<lparr>trace := trace s @
               [SetByteArrayRegion (data sb) (unat (length_field sb)),
                OnNativeUnaryCall (uri a) payload]\<rparr>"
  have hs2: "hs = (case ref_counter_struct_size ?s2 of
                     None \<Rightarrow> data sb - ref_counter sb | Some v \<Rightarrow> v)"
    using hs by simp
  have alloc2: "allocator e (blocks (mem ?s2)) (hs + word_of_nat (length P)) = n"
    using alloc by simp
  have live2: "ref_counter sb \<in> fst ` set (blocks (mem ?s2))"
    using live by simp
  have hdr2: "read_bytes (blocks (mem ?s2)) (ref_counter sb) (unat hs) = Some hdr"
    using hdr by simp
  note rw = rewrite_slice_buffer_success [OF P hs2 alloc2 n0 range r0 live2 distinct apart hdr2,
      of "slice_buffer b"]
  show ?thesis
    using bb b sb r0 att payload d nc buf jsize_of_length [OF len]
    unfolding unaryCall_hook_def h'
    by (simp add: rw call_original_def record_event_def split: prod.splits
        del: read_bytes.simps)
qed

lemma dispatched_append [simp]: "dispatched (xs @ ys) = dispatched xs @ dispatched ys"
  by (induction xs rule: dispatched.induct) simp_all

lemma freed_append [simp]: "freed (xs @ ys) = freed xs @ freed ys"
  by (induction xs rule: freed.induct) simp_all

lemma malloc_sizes_append [simp]: "malloc_sizes (xs @ ys) = malloc_sizes xs @ malloc_sizes ys"
  by (induction xs rule: malloc_sizes.induct) simp_all

lemma rewrite_slice_buffer_fault_frame:
  assumes "rewrite_slice_buffer e sbp sb P s = Inl (f, s')"
  shows "slice_buffers (mem s') = slice_buffers (mem s) \<and>
         dispatched (trace s') = dispatched (trace s)"
  using assms
  unfolding rewrite_slice_buffer_def Let_def bind_fault_def fault_in_def
  by (auto split: sum.splits simp: set_blocks_def record_event_def)

lemma unaryCall_hook_fault_frame:
  assumes "unaryCall_hook e a s = Inl (f, s')"
  shows "slice_buffers (mem s') = slice_buffers (mem s) \<and>
         dispatched (trace s') = dispatched (trace s)"
proof -
  have rw: "\<And>sbp sb P s0. rewrite_slice_buffer e sbp sb P s0 = Inl (f, s') \<Longrightarrow>
      slice_buffers (mem s') = slice_buffers (mem s0) \<and>
      dispatched (trace s') = dispatched (trace s0)"
    by (rule rewrite_slice_buffer_fault_frame)
  show ?thesis
    using assms
    unfolding unaryCall_hook_def Let_def bind_fault_def fault_in_def
    by (auto split: sum.splits if_splits option.splits dest!: rw
        simp: record_event_def)
qed

subsection \<open>The concrete process, run\<close>

lemma ex_first_run:
  "unaryCall_hook ex_env (ex_args 0x100) ex_process =
     Inr (0x77,
       \<lparr>mem = ex_heap_first, ref_counter_struct_size = Some 4,
        trace = [SetByteArrayRegion 0x1004 3, OnNativeUnaryCall ''/svc/Send'' [1, 2, 3],
                 Malloc 6 0x2000, Free 0x1000,
                 UnaryCallOriginal (ex_args 0x100) ex_heap_first]\<rparr>)"
proof -
  let ?sb = "\<lparr>ref_counter = 0x1000, length_field = 3, data = 0x1004\<rparr>"
  let ?d = "\<lparr>canceled = False, buffer = Some [9, 8]\<rparr>"
  have h1: "deref (byte_buffer_ptrs (mem ex_process)) (buffer_ptr (ex_args 0x100)) = Inr 0x200"
    by (simp add: deref_def ex_process_def ex_heap_def ex_args_def)
  have h2: "deref (byte_buffers (mem ex_process)) 0x200 = Inr \<lparr>slice_buffer = 0x300\<rparr>"
    by (simp add: deref_def ex_process_def ex_heap_def)
  have h3: "deref (slice_buffers (mem ex_process)) (slice_buffer \<lparr>slice_buffer = 0x300\<rparr>) =
      Inr ?sb"
    by (simp add: deref_def ex_process_def ex_heap_def)
  have h4: "ref_counter ?sb \<noteq> 0"
    by simp
  have h5: "thread_attached ex_env"
    by (simp add: ex_env_def)
  have h6: "unat (length_field ?sb) < 2 ^ 31"
    by simp
  have h7: "read_bytes (blocks (mem ex_process)) (data ?sb) (unat (length_field ?sb)) =
      Some [1, 2, 3]"
    by (simp add: ex_process_def ex_heap_def)
  have h8: "onNativeUnaryCall ex_env (uri (ex_args 0x100)) [1, 2, 3] = Some ?d"
    by (simp add: ex_env_def)
  have h9: "\<not> canceled ?d"
    by simp
  have h10: "buffer ?d = Some [9, 8]"
    by simp
  have h11: "length ([9, 8] :: byte list) < 2 ^ 31"
    by simp
  have h12: "(4 :: 64 word) = (case ref_counter_struct_size ex_process of
      None \<Rightarrow> data ?sb - ref_counter ?sb | Some v \<Rightarrow> v)"
    by (simp add: ex_process_def ex_heap_def)
  have h13: "allocator ex_env (blocks (mem ex_process))
      (4 + word_of_nat (length ([9, 8] :: byte list))) = 0x2000"
    by (simp add: ex_env_def ex_process_def ex_heap_def)
  have h14: "(0x2000 :: 64 word) \<noteq> 0"
    by simp
  have h15: "unat (0x2000 :: 64 word) + unat (4 :: 64 word) + length ([9, 8] :: byte list)
      < 2 ^ 64"
    by simp
  have h16: "ref_counter ?sb \<in> fst ` set (blocks (mem ex_process))"
    by (simp add: ex_process_def ex_heap_def)
  have h17: "(0x2000 :: 64 word) \<noteq> ref_counter ?sb"
    by simp
  have h18: "unat (4 :: 64 word) + length ([9, 8] :: byte list)
      \<le> unat (ref_counter ?sb - 0x2000)"
    by simp
  have h19: "read_bytes (blocks (mem ex_process)) (ref_counter ?sb) (unat (4 :: 64 word)) =
      Some [0xA1, 0xA2, 0xA3, 0xA4]"
    by (simp add: ex_process_def ex_heap_def)
  show ?thesis
    using unaryCall_hook_rewrite [OF h1 h2 h3 h4 h5 h6 h7 h8 h9 h10 h11 h12 h13 h14 h15 h16 h17 h18 h19 refl]
    by (simp add: ex_env_def ex_process_def ex_heap_first_def ex_heap_def ex_args_def)
qed

lemma ex_after_first_eq:
  "ex_after_first =
     \<lparr>mem = ex_heap_first, ref_counter_struct_size = Some 4,
      trace = [SetByteArrayRegion 0x1004 3, OnNativeUnaryCall ''/svc/Send'' [1, 2, 3],
               Malloc 6 0x2000, Free 0x1000,
               UnaryCallOriginal (ex_args 0x100) ex_heap_first]\<rparr>"
  by (simp add: ex_after_first_def ex_first_run final_state_def)

lemma ex_second_run:
  "unaryCall_hook ex_env (ex_args 0x110) ex_after_first =
     Inr (0x77,
       \<lparr>mem = ex_heap_second, ref_counter_struct_size = Some 4,
        trace = [SetByteArrayRegion 0x1004 3, OnNativeUnaryCall ''/svc/Send'' [1, 2, 3],
                 Malloc 6 0x2000, Free 0x1000,
                 UnaryCallOriginal (ex_args 0x100) ex_heap_first,
                 SetByteArrayRegion 0x3006 2, OnNativeUnaryCall ''/svc/Send'' [7, 7],
                 Malloc 7 0x4000, Free 0x3000,
                 UnaryCallOriginal (ex_args 0x110) ex_heap_second]\<rparr>)"
proof -
  let ?sb = "\<lparr>ref_counter = 0x3000, length_field = 2, data = 0x3006\<rparr>"
  let ?d = "\<lparr>canceled = False, buffer = Some [5, 5, 5]\<rparr>"
  have h1: "deref (byte_buffer_ptrs (mem ex_after_first)) (buffer_ptr (ex_args 0x110)) = Inr 0x210"
    by (simp add: deref_def ex_after_first_eq ex_heap_first_def ex_heap_def ex_args_def)
  have h2: "deref (byte_buffers (mem ex_after_first)) 0x210 = Inr \<lparr>slice_buffer = 0x310\<rparr>"
    by (simp add: deref_def ex_after_first_eq ex_heap_first_def ex_heap_def)
  have h3: "deref (slice_buffers (mem ex_after_first)) (slice_buffer \<lparr>slice_buffer = 0x310\<rparr>) =
      Inr ?sb"
    by (simp add: deref_def ex_after_first_eq ex_heap_first_def ex_heap_def)
  have h4: "ref_counter ?sb \<noteq> 0"
    by simp
  have h5: "thread_attached ex_env"
    by (simp add: ex_env_def)
  have h6: "unat (length_field ?sb) < 2 ^ 31"
    by simp
  have h7: "read_bytes (blocks (mem ex_after_first)) (data ?sb) (unat (length_field ?sb)) =
      Some [7, 7]"
    by (simp add: ex_after_first_eq ex_heap_first_def ex_heap_def)
  have h8: "onNativeUnaryCall ex_env (uri (ex_args 0x110)) [7, 7] = Some ?d"
    by (simp add: ex_env_def)
  have h9: "\<not> canceled ?d"
    by simp
  have h10: "buffer ?d = Some [5, 5, 5]"
    by simp
  have h11: "length ([5, 5, 5] :: byte list) < 2 ^ 31"
    by simp
  have h12: "(4 :: 64 word) = (case ref_counter_struct_size ex_after_first of
      None \<Rightarrow> data ?sb - ref_counter ?sb | Some v \<Rightarrow> v)"
    by (simp add: ex_after_first_eq ex_heap_first_def ex_heap_def)
  have h13: "allocator ex_env (blocks (mem ex_after_first))
      (4 + word_of_nat (length ([5, 5, 5] :: byte list))) = 0x4000"
    by (simp add: ex_env_def ex_after_first_eq ex_heap_first_def ex_heap_def)
  have h14: "(0x4000 :: 64 word) \<noteq> 0"
    by simp
  have h15: "unat (0x4000 :: 64 word) + unat (4 :: 64 word) + length ([5, 5, 5] :: byte list)
      < 2 ^ 64"
    by simp
  have h16: "ref_counter ?sb \<in> fst ` set (blocks (mem ex_after_first))"
    by (simp add: ex_after_first_eq ex_heap_first_def ex_heap_def)
  have h17: "(0x4000 :: 64 word) \<noteq> ref_counter ?sb"
    by simp
  have h18: "unat (4 :: 64 word) + length ([5, 5, 5] :: byte list)
      \<le> unat (ref_counter ?sb - 0x4000)"
    by simp
  have h19: "read_bytes (blocks (mem ex_after_first)) (ref_counter ?sb) (unat (4 :: 64 word)) =
      Some [0xB1, 0xB2, 0xB3, 0xB4]"
    by (simp add: ex_after_first_eq ex_heap_first_def ex_heap_def)
  show ?thesis
    using unaryCall_hook_rewrite [OF h1 h2 h3 h4 h5 h6 h7 h8 h9 h10 h11 h12 h13 h14 h15 h16 h17 h18 h19 refl]
    by (simp add: ex_env_def ex_after_first_eq ex_heap_second_def ex_heap_first_def ex_heap_def
        ex_args_def)
qed

lemma ex_second_final:
  "final_state (unaryCall_hook ex_env (ex_args 0x110) ex_after_first) =
     \<lparr>mem = ex_heap_second, ref_counter_struct_size = Some 4,
      trace = [SetByteArrayRegion 0x1004 3, OnNativeUnaryCall ''/svc/Send'' [1, 2, 3],
               Malloc 6 0x2000, Free 0x1000,
               UnaryCallOriginal (ex_args 0x100) ex_heap_first,
               SetByteArrayRegion 0x3006 2, OnNativeUnaryCall ''/svc/Send'' [7, 7],
               Malloc 7 0x4000, Free 0x3000,
               UnaryCallOriginal (ex_args 0x110) ex_heap_second]\<rparr>"
  unfolding ex_second_run by (simp add: final_state_def)

lemma ex_second_returned: "returned (unaryCall_hook ex_env (ex_args 0x110) ex_after_first) = Some 0x77"
  unfolding ex_second_run by (simp add: returned_def)

subsection \<open>The rewritten buffer\<close>

text \<open>
  Claim C1, as the code has it. The header size \<open>hs\<close> in use is the static
  \<^verbatim>\<open>ref_counter_struct_size\<close>: this call's \<open>data - ref_counter\<close> when the static has not
  been initialised (the first rewrite of the process), the value it was initialised
  with otherwise. When the decision-maker returns a new payload \<open>P\<close> and \<^verbatim>\<open>malloc\<close>
  returns a block \<open>n\<close> (non-null, inside the address space, apart from the old block),
  the original dispatch is called with a heap in which the slice buffer has length
  \<open>|P|\<close>, its payload bytes at \<open>data\<close> are \<open>P\<close>, its \<open>ref_counter\<close> is the new block, whose
  first \<open>hs\<close> bytes are the first \<open>hs\<close> bytes of the old block, and \<open>data\<close> is the new
  block plus \<open>hs\<close>; the old block is freed once, before the original is called, and is
  no longer live. On the first rewrite the \<open>hs\<close> bytes are the original header, from
  \<open>ref_counter\<close> up to \<open>data\<close>. The trace lists every event the hook adds.
\<close>

theorem unaryCall_hook_rewrite_buffer:
  fixes hs :: "64 word"
  assumes bb: "deref (byte_buffer_ptrs (mem s)) (buffer_ptr a) = Inr bb"
    and b: "deref (byte_buffers (mem s)) bb = Inr b"
    and sb: "deref (slice_buffers (mem s)) (slice_buffer b) = Inr sb"
    and r0: "ref_counter sb \<noteq> 0"
    and att: "thread_attached e"
    and len: "unat (length_field sb) < 2 ^ 31"
    and payload: "read_bytes (blocks (mem s)) (data sb) (unat (length_field sb)) = Some payload"
    and d: "onNativeUnaryCall e (uri a) payload = Some d"
    and nc: "\<not> canceled d"
    and buf: "buffer d = Some P"
    and P: "length P < 2 ^ 31"
    and hs: "hs = (case ref_counter_struct_size s of
                     None \<Rightarrow> data sb - ref_counter sb | Some v \<Rightarrow> v)"
    and alloc: "allocator e (blocks (mem s)) (hs + word_of_nat (length P)) = n"
    and n0: "n \<noteq> 0"
    and range: "unat n + unat hs + length P < 2 ^ 64"
    and live: "ref_counter sb \<in> fst ` set (blocks (mem s))"
    and distinct: "n \<noteq> ref_counter sb"
    and apart: "unat hs + length P \<le> unat (ref_counter sb - n)"
    and hdr: "read_bytes (blocks (mem s)) (ref_counter sb) (unat hs) = Some hdr"
  shows "\<exists>h' sb'.
      unaryCall_hook e a s =
        Inr (fst (unaryCall_original e a h'),
             s\<lparr>mem := snd (unaryCall_original e a h'),
               ref_counter_struct_size := Some hs,
               trace := trace s @
                 [SetByteArrayRegion (data sb) (unat (length_field sb)),
                  OnNativeUnaryCall (uri a) payload,
                  Malloc (hs + word_of_nat (length P)) n,
                  Free (ref_counter sb),
                  UnaryCallOriginal a h']\<rparr>) \<and>
      slice_buffers h' (slice_buffer b) = Some sb' \<and>
      unat (length_field sb') = length P \<and>
      read_bytes (blocks h') (data sb') (length P) = Some P \<and>
      ref_counter sb' = n \<and>
      read_bytes (blocks h') (ref_counter sb') (unat hs) = Some hdr \<and>
      data sb' = ref_counter sb' + hs \<and>
      ref_counter sb \<notin> fst ` set (blocks h')"
proof -
  let ?sb' = "\<lparr>ref_counter = n, length_field = word_of_nat (length P), data = n + hs\<rparr>"
  let ?h' = "(mem s)
      \<lparr>blocks := (n, hdr @ P) # filter (\<lambda>blk. fst blk \<noteq> ref_counter sb) (blocks (mem s)),
       slice_buffers := (slice_buffers (mem s))(slice_buffer b \<mapsto> ?sb')\<rparr>"
  have lh: "length hdr = unat hs"
    using hdr by (rule read_bytes_length)
  have run: "unaryCall_hook e a s =
      Inr (fst (unaryCall_original e a ?h'),
           s\<lparr>mem := snd (unaryCall_original e a ?h'),
             ref_counter_struct_size := Some hs,
             trace := trace s @
               [SetByteArrayRegion (data sb) (unat (length_field sb)),
                OnNativeUnaryCall (uri a) payload,
                Malloc (hs + word_of_nat (length P)) n,
                Free (ref_counter sb),
                UnaryCallOriginal a ?h']\<rparr>)"
    using bb b sb r0 att len payload d nc buf P hs alloc n0 range live distinct apart hdr refl
    by (rule unaryCall_hook_rewrite)
  have f1: "slice_buffers ?h' (slice_buffer b) = Some ?sb'"
    by simp
  have f2: "unat (length_field ?sb') = length P"
    using P by (simp add: unat_array_length)
  have f3: "read_bytes (blocks ?h') (data ?sb') (length P) = Some P"
    using lh by simp
  have f4: "read_bytes (blocks ?h') (ref_counter ?sb') (unat hs) = Some hdr"
    using lh by simp
  have f5: "ref_counter sb \<notin> fst ` set (blocks ?h')"
    using distinct by auto
  show ?thesis
    using run f1 f2 f3 f4 f5 by (intro exI [of _ ?h'] exI [of _ ?sb']) simp
qed

theorem unaryCall_hook_rewrite_buffer_witness:
  "returned (unaryCall_hook ex_env (ex_args 0x100) ex_process) = Some 0x77 \<and>
   freed (trace (final_state (unaryCall_hook ex_env (ex_args 0x100) ex_process))) = [0x1000] \<and>
   map_option ref_counter
     (slice_buffers (mem (final_state (unaryCall_hook ex_env (ex_args 0x100) ex_process))) 0x300)
     = Some 0x2000 \<and>
   map_option data
     (slice_buffers (mem (final_state (unaryCall_hook ex_env (ex_args 0x100) ex_process))) 0x300)
     = Some 0x2004 \<and>
   map_option (\<lambda>sb. unat (length_field sb))
     (slice_buffers (mem (final_state (unaryCall_hook ex_env (ex_args 0x100) ex_process))) 0x300)
     = Some (length [9, 8 :: byte]) \<and>
   read_bytes (blocks (mem (final_state (unaryCall_hook ex_env (ex_args 0x100) ex_process))))
     0x2004 (length [9, 8 :: byte]) = Some [9, 8] \<and>
   read_bytes (blocks (mem (final_state (unaryCall_hook ex_env (ex_args 0x100) ex_process))))
     0x2000 4 = Some [0xA1, 0xA2, 0xA3, 0xA4]"
proof -
  let ?sb = "\<lparr>ref_counter = 0x1000, length_field = 3, data = 0x1004\<rparr>"
  let ?d = "\<lparr>canceled = False, buffer = Some [9, 8]\<rparr>"
  have h1: "deref (byte_buffer_ptrs (mem ex_process)) (buffer_ptr (ex_args 0x100)) = Inr 0x200"
    by (simp add: deref_def ex_process_def ex_heap_def ex_args_def)
  have h2: "deref (byte_buffers (mem ex_process)) 0x200 = Inr \<lparr>slice_buffer = 0x300\<rparr>"
    by (simp add: deref_def ex_process_def ex_heap_def)
  have h3: "deref (slice_buffers (mem ex_process)) (slice_buffer \<lparr>slice_buffer = 0x300\<rparr>) =
      Inr ?sb"
    by (simp add: deref_def ex_process_def ex_heap_def)
  have h4: "ref_counter ?sb \<noteq> 0"
    by simp
  have h5: "thread_attached ex_env"
    by (simp add: ex_env_def)
  have h6: "unat (length_field ?sb) < 2 ^ 31"
    by simp
  have h7: "read_bytes (blocks (mem ex_process)) (data ?sb) (unat (length_field ?sb)) =
      Some [1, 2, 3]"
    by (simp add: ex_process_def ex_heap_def)
  have h8: "onNativeUnaryCall ex_env (uri (ex_args 0x100)) [1, 2, 3] = Some ?d"
    by (simp add: ex_env_def)
  have h9: "\<not> canceled ?d"
    by simp
  have h10: "buffer ?d = Some [9, 8]"
    by simp
  have h11: "length ([9, 8] :: byte list) < 2 ^ 31"
    by simp
  have h12: "(4 :: 64 word) = (case ref_counter_struct_size ex_process of
      None \<Rightarrow> data ?sb - ref_counter ?sb | Some v \<Rightarrow> v)"
    by (simp add: ex_process_def ex_heap_def)
  have h13: "allocator ex_env (blocks (mem ex_process))
      (4 + word_of_nat (length ([9, 8] :: byte list))) = 0x2000"
    by (simp add: ex_env_def ex_process_def ex_heap_def)
  have h14: "(0x2000 :: 64 word) \<noteq> 0"
    by simp
  have h15: "unat (0x2000 :: 64 word) + unat (4 :: 64 word) + length ([9, 8] :: byte list)
      < 2 ^ 64"
    by simp
  have h16: "ref_counter ?sb \<in> fst ` set (blocks (mem ex_process))"
    by (simp add: ex_process_def ex_heap_def)
  have h17: "(0x2000 :: 64 word) \<noteq> ref_counter ?sb"
    by simp
  have h18: "unat (4 :: 64 word) + length ([9, 8] :: byte list)
      \<le> unat (ref_counter ?sb - 0x2000)"
    by simp
  have h19: "read_bytes (blocks (mem ex_process)) (ref_counter ?sb) (unat (4 :: 64 word)) =
      Some [0xA1, 0xA2, 0xA3, 0xA4]"
    by (simp add: ex_process_def ex_heap_def)
  obtain h' sb' where
    run: "unaryCall_hook ex_env (ex_args 0x100) ex_process =
        Inr (fst (unaryCall_original ex_env (ex_args 0x100) h'),
             ex_process\<lparr>mem := snd (unaryCall_original ex_env (ex_args 0x100) h'),
               ref_counter_struct_size := Some 4,
               trace := trace ex_process @
                 [SetByteArrayRegion (data ?sb) (unat (length_field ?sb)),
                  OnNativeUnaryCall (uri (ex_args 0x100)) [1, 2, 3],
                  Malloc (4 + word_of_nat (length [9, 8 :: byte])) 0x2000,
                  Free (ref_counter ?sb),
                  UnaryCallOriginal (ex_args 0x100) h']\<rparr>)"
    and f: "slice_buffers h' (slice_buffer \<lparr>slice_buffer = 0x300\<rparr>) = Some sb'"
      "unat (length_field sb') = length [9, 8 :: byte]"
      "read_bytes (blocks h') (data sb') (length [9, 8 :: byte]) = Some [9, 8]"
      "ref_counter sb' = 0x2000"
      "read_bytes (blocks h') (ref_counter sb') (unat (4 :: 64 word)) = Some [0xA1, 0xA2, 0xA3, 0xA4]"
      "data sb' = ref_counter sb' + 4"
    using unaryCall_hook_rewrite_buffer [OF h1 h2 h3 h4 h5 h6 h7 h8 h9 h10 h11 h12 h13 h14 h15 h16 h17 h18 h19]
    by blast
  have m: "mem (final_state (unaryCall_hook ex_env (ex_args 0x100) ex_process)) = h'"
    unfolding run by (simp add: final_state_def ex_env_def)
  have tr: "trace (final_state (unaryCall_hook ex_env (ex_args 0x100) ex_process)) =
      [SetByteArrayRegion 0x1004 3, OnNativeUnaryCall (uri (ex_args 0x100)) [1, 2, 3],
       Malloc 6 0x2000, Free 0x1000, UnaryCallOriginal (ex_args 0x100) h']"
    unfolding run by (simp add: final_state_def ex_process_def)
  have rt: "returned (unaryCall_hook ex_env (ex_args 0x100) ex_process) = Some 0x77"
    unfolding run by (simp add: returned_def ex_env_def)
  show ?thesis
    unfolding m tr rt using f by simp
qed

text \<open>
  The claim as stated, for every rewrite, fails on the second rewrite of the concrete
  process: the static holds 4 from the first rewrite, the second buffer's header is the
  6 bytes from \<open>0x3000\<close> up to \<open>0x3006\<close>, and the new block holds only the first 4 of
  them in front of the payload.
\<close>

theorem unaryCall_hook_rewrite_buffer_counterexample:
  "onNativeUnaryCall ex_env (uri (ex_args 0x110)) [7, 7] =
     Some \<lparr>canceled = False, buffer = Some [5, 5, 5]\<rparr> \<and>
   slice_buffers (mem ex_after_first) 0x310 =
     Some \<lparr>ref_counter = 0x3000, length_field = 2, data = 0x3006\<rparr> \<and>
   read_bytes (blocks (mem ex_after_first)) 0x3000 (unat (0x3006 - 0x3000 :: 64 word)) =
     Some [0xB1, 0xB2, 0xB3, 0xB4, 0xB5, 0xB6] \<and>
   returned (unaryCall_hook ex_env (ex_args 0x110) ex_after_first) = Some 0x77 \<and>
   slice_buffers (mem (final_state (unaryCall_hook ex_env (ex_args 0x110) ex_after_first))) 0x310 =
     Some \<lparr>ref_counter = 0x4000, length_field = 3, data = 0x4004\<rparr> \<and>
   read_bytes (blocks (mem (final_state (unaryCall_hook ex_env (ex_args 0x110) ex_after_first)))) 0x4000 (unat (0x4004 - 0x4000 :: 64 word)) =
     Some [0xB1, 0xB2, 0xB3, 0xB4] \<and>
   read_bytes (blocks (mem (final_state (unaryCall_hook ex_env (ex_args 0x110) ex_after_first)))) 0x4000 (unat (0x4004 - 0x4000 :: 64 word)) \<noteq>
     read_bytes (blocks (mem ex_after_first)) 0x3000 (unat (0x3006 - 0x3000 :: 64 word))"
proof -
  have c1: "onNativeUnaryCall ex_env (uri (ex_args 0x110)) [7, 7] =
      Some \<lparr>canceled = False, buffer = Some [5, 5, 5]\<rparr>"
    by (simp add: ex_env_def)
  have c2: "slice_buffers (mem ex_after_first) 0x310 =
      Some \<lparr>ref_counter = 0x3000, length_field = 2, data = 0x3006\<rparr>"
    by (simp add: ex_after_first_eq ex_heap_first_def ex_heap_def)
  have c3: "read_bytes (blocks (mem ex_after_first)) 0x3000 (unat (0x3006 - 0x3000 :: 64 word)) =
      Some [0xB1, 0xB2, 0xB3, 0xB4, 0xB5, 0xB6]"
    by (simp add: ex_after_first_eq ex_heap_first_def)
  have c4: "returned (unaryCall_hook ex_env (ex_args 0x110) ex_after_first) = Some 0x77"
    by (rule ex_second_returned)
  have c5: "slice_buffers (mem (final_state (unaryCall_hook ex_env (ex_args 0x110) ex_after_first))) 0x310 =
      Some \<lparr>ref_counter = 0x4000, length_field = 3, data = 0x4004\<rparr>"
    unfolding ex_second_final by (simp add: ex_heap_second_def)
  have c6: "read_bytes (blocks (mem (final_state (unaryCall_hook ex_env (ex_args 0x110) ex_after_first)))) 0x4000
      (unat (0x4004 - 0x4000 :: 64 word)) = Some [0xB1, 0xB2, 0xB3, 0xB4]"
    unfolding ex_second_final by (simp add: ex_heap_second_def)
  have c7: "read_bytes (blocks (mem (final_state (unaryCall_hook ex_env (ex_args 0x110) ex_after_first)))) 0x4000
      (unat (0x4004 - 0x4000 :: 64 word)) \<noteq>
      read_bytes (blocks (mem ex_after_first)) 0x3000 (unat (0x3006 - 0x3000 :: 64 word))"
    unfolding c6 c3 by simp
  show ?thesis
    using c1 c2 c3 c4 c5 c6 c7 by (simp only: simp_thms)
qed

subsection \<open>The header size\<close>

lemma rewrite_slice_buffer_static_kept:
  assumes "ref_counter_struct_size s = Some v"
  shows "rewrite_slice_buffer e sbp sb P s = Inl (f, s') \<Longrightarrow>
           ref_counter_struct_size s' = Some v"
    and "rewrite_slice_buffer e sbp sb P s = Inr s' \<Longrightarrow>
           ref_counter_struct_size s' = Some v"
  using assms
  unfolding rewrite_slice_buffer_def Let_def bind_fault_def fault_in_def
  by (auto split: sum.splits simp: set_blocks_def record_event_def)

lemma unaryCall_hook_static_kept:
  assumes "ref_counter_struct_size s = Some v"
  shows "ref_counter_struct_size (final_state (unaryCall_hook e a s)) = Some v"
proof -
  have rwl: "\<And>sbp sb P s0 f s'. rewrite_slice_buffer e sbp sb P s0 = Inl (f, s') \<Longrightarrow>
      ref_counter_struct_size s0 = Some v \<Longrightarrow> ref_counter_struct_size s' = Some v"
    using rewrite_slice_buffer_static_kept(1) by blast
  have rwr: "\<And>sbp sb P s0 s'. rewrite_slice_buffer e sbp sb P s0 = Inr s' \<Longrightarrow>
      ref_counter_struct_size s0 = Some v \<Longrightarrow> ref_counter_struct_size s' = Some v"
    using rewrite_slice_buffer_static_kept(2) by blast
  have l: "\<And>f s'. unaryCall_hook e a s = Inl (f, s') \<Longrightarrow> ref_counter_struct_size s' = Some v"
    using assms
    unfolding unaryCall_hook_def Let_def bind_fault_def fault_in_def
    by (auto split: sum.splits if_splits option.splits dest!: rwl simp: record_event_def)
  have r: "\<And>p s'. unaryCall_hook e a s = Inr (p, s') \<Longrightarrow> ref_counter_struct_size s' = Some v"
    using assms
    unfolding unaryCall_hook_def Let_def bind_fault_def fault_in_def
    by (auto split: sum.splits if_splits option.splits prod.splits dest!: rwr
        simp: record_event_def call_original_def)
  show ?thesis
  proof (cases "unaryCall_hook e a s")
    case (Inl x)
    then show ?thesis using l [of "fst x" "snd x"] by (simp add: final_state_def)
  next
    case (Inr x)
    then show ?thesis using r [of "fst x" "snd x"] by (simp add: final_state_def)
  qed
qed

text \<open>
  Claim C3, as the code has it. The header size that sizes the new block (the size
  passed to \<^verbatim>\<open>malloc\<close> is \<open>hs\<close> plus the payload length), that is copied from the old
  block (the first \<open>hs\<close> bytes of the new block are the first \<open>hs\<close> bytes of the old one)
  and that places the new \<open>data\<close> (\<open>data - ref_counter = hs\<close> in the buffer handed to the
  original) is the static \<^verbatim>\<open>ref_counter_struct_size\<close>: it is this call's
  \<open>data - ref_counter\<close> only when the static has not been initialised, that is on the
  first rewrite of the process; from then on it is the value the static holds, and the
  static keeps it through every later run of the hook, whatever that run does.
\<close>

theorem unaryCall_hook_header_size:
  fixes hs :: "64 word"
  assumes bb: "deref (byte_buffer_ptrs (mem s)) (buffer_ptr a) = Inr bb"
    and b: "deref (byte_buffers (mem s)) bb = Inr b"
    and sb: "deref (slice_buffers (mem s)) (slice_buffer b) = Inr sb"
    and r0: "ref_counter sb \<noteq> 0"
    and att: "thread_attached e"
    and len: "unat (length_field sb) < 2 ^ 31"
    and payload: "read_bytes (blocks (mem s)) (data sb) (unat (length_field sb)) = Some payload"
    and d: "onNativeUnaryCall e (uri a) payload = Some d"
    and nc: "\<not> canceled d"
    and buf: "buffer d = Some P"
    and P: "length P < 2 ^ 31"
    and hs: "hs = (case ref_counter_struct_size s of
                     None \<Rightarrow> data sb - ref_counter sb | Some v \<Rightarrow> v)"
    and alloc: "allocator e (blocks (mem s)) (hs + word_of_nat (length P)) = n"
    and n0: "n \<noteq> 0"
    and range: "unat n + unat hs + length P < 2 ^ 64"
    and live: "ref_counter sb \<in> fst ` set (blocks (mem s))"
    and distinct: "n \<noteq> ref_counter sb"
    and apart: "unat hs + length P \<le> unat (ref_counter sb - n)"
    and hdr: "read_bytes (blocks (mem s)) (ref_counter sb) (unat hs) = Some hdr"
  shows "\<exists>r s' h' sb'.
      unaryCall_hook e a s = Inr (r, s') \<and>
      malloc_sizes (drop (length (trace s)) (trace s')) = [hs + word_of_nat (length P)] \<and>
      dispatched (drop (length (trace s)) (trace s')) = [h'] \<and>
      slice_buffers h' (slice_buffer b) = Some sb' \<and>
      read_bytes (blocks h') (ref_counter sb') (unat hs) =
        read_bytes (blocks (mem s)) (ref_counter sb) (unat hs) \<and>
      data sb' - ref_counter sb' = hs \<and>
      ref_counter_struct_size s' = Some hs \<and>
      (ref_counter_struct_size s = None \<longrightarrow> hs = data sb - ref_counter sb) \<and>
      (\<forall>v. ref_counter_struct_size s = Some v \<longrightarrow> hs = v) \<and>
      (\<forall>e' a'. ref_counter_struct_size (final_state (unaryCall_hook e' a' s')) = Some hs)"
proof -
  let ?sb' = "\<lparr>ref_counter = n, length_field = word_of_nat (length P), data = n + hs\<rparr>"
  let ?h' = "(mem s)
      \<lparr>blocks := (n, hdr @ P) # filter (\<lambda>blk. fst blk \<noteq> ref_counter sb) (blocks (mem s)),
       slice_buffers := (slice_buffers (mem s))(slice_buffer b \<mapsto> ?sb')\<rparr>"
  let ?s' = "s\<lparr>mem := snd (unaryCall_original e a ?h'),
             ref_counter_struct_size := Some hs,
             trace := trace s @
               [SetByteArrayRegion (data sb) (unat (length_field sb)),
                OnNativeUnaryCall (uri a) payload,
                Malloc (hs + word_of_nat (length P)) n,
                Free (ref_counter sb),
                UnaryCallOriginal a ?h']\<rparr>"
  have lh: "length hdr = unat hs"
    using hdr by (rule read_bytes_length)
  have run: "unaryCall_hook e a s = Inr (fst (unaryCall_original e a ?h'), ?s')"
    using bb b sb r0 att len payload d nc buf P hs alloc n0 range live distinct apart hdr refl
    by (rule unaryCall_hook_rewrite)
  have f1: "malloc_sizes (drop (length (trace s)) (trace ?s')) = [hs + word_of_nat (length P)]"
    by simp
  have f2: "dispatched (drop (length (trace s)) (trace ?s')) = [?h']"
    by simp
  have f3: "slice_buffers ?h' (slice_buffer b) = Some ?sb'"
    by simp
  have f4: "read_bytes (blocks ?h') (ref_counter ?sb') (unat hs) =
      read_bytes (blocks (mem s)) (ref_counter sb) (unat hs)"
    using lh hdr by simp
  have f5: "data ?sb' - ref_counter ?sb' = hs"
    by simp
  have f6: "ref_counter_struct_size ?s' = Some hs"
    by simp
  have f7: "(ref_counter_struct_size s = None \<longrightarrow> hs = data sb - ref_counter sb) \<and>
      (\<forall>v. ref_counter_struct_size s = Some v \<longrightarrow> hs = v)"
    using hs by simp
  have f8: "\<forall>e' a'. ref_counter_struct_size (final_state (unaryCall_hook e' a' ?s')) = Some hs"
    using f6 by (blast intro: unaryCall_hook_static_kept)
  show ?thesis
    using run f1 f2 f3 f4 f5 f6 f7 f8
    by (intro exI [of _ "fst (unaryCall_original e a ?h')"] exI [of _ ?s'] exI [of _ ?h']
        exI [of _ ?sb']) (simp only: simp_thms)
qed

theorem unaryCall_hook_header_size_witness:
  "ref_counter_struct_size ex_after_first = Some 4 \<and>
   malloc_sizes (drop (length (trace ex_after_first)) (trace (final_state (unaryCall_hook ex_env (ex_args 0x110) ex_after_first)))) = [7] \<and>
   map_option (\<lambda>sb. data sb - ref_counter sb)
     (slice_buffers (mem (final_state (unaryCall_hook ex_env (ex_args 0x110) ex_after_first))) 0x310) = Some 4 \<and>
   ref_counter_struct_size (final_state (unaryCall_hook ex_env (ex_args 0x110) ex_after_first)) = Some 4"
proof -
  let ?sb = "\<lparr>ref_counter = 0x3000, length_field = 2, data = 0x3006\<rparr>"
  let ?d = "\<lparr>canceled = False, buffer = Some [5, 5, 5]\<rparr>"
  have h1: "deref (byte_buffer_ptrs (mem ex_after_first)) (buffer_ptr (ex_args 0x110)) = Inr 0x210"
    by (simp add: deref_def ex_after_first_eq ex_heap_first_def ex_heap_def ex_args_def)
  have h2: "deref (byte_buffers (mem ex_after_first)) 0x210 = Inr \<lparr>slice_buffer = 0x310\<rparr>"
    by (simp add: deref_def ex_after_first_eq ex_heap_first_def ex_heap_def)
  have h3: "deref (slice_buffers (mem ex_after_first)) (slice_buffer \<lparr>slice_buffer = 0x310\<rparr>) =
      Inr ?sb"
    by (simp add: deref_def ex_after_first_eq ex_heap_first_def ex_heap_def)
  have h4: "ref_counter ?sb \<noteq> 0"
    by simp
  have h5: "thread_attached ex_env"
    by (simp add: ex_env_def)
  have h6: "unat (length_field ?sb) < 2 ^ 31"
    by simp
  have h7: "read_bytes (blocks (mem ex_after_first)) (data ?sb) (unat (length_field ?sb)) =
      Some [7, 7]"
    by (simp add: ex_after_first_eq ex_heap_first_def ex_heap_def)
  have h8: "onNativeUnaryCall ex_env (uri (ex_args 0x110)) [7, 7] = Some ?d"
    by (simp add: ex_env_def)
  have h9: "\<not> canceled ?d"
    by simp
  have h10: "buffer ?d = Some [5, 5, 5]"
    by simp
  have h11: "length ([5, 5, 5] :: byte list) < 2 ^ 31"
    by simp
  have h12: "(4 :: 64 word) = (case ref_counter_struct_size ex_after_first of
      None \<Rightarrow> data ?sb - ref_counter ?sb | Some v \<Rightarrow> v)"
    by (simp add: ex_after_first_eq ex_heap_first_def ex_heap_def)
  have h13: "allocator ex_env (blocks (mem ex_after_first))
      (4 + word_of_nat (length ([5, 5, 5] :: byte list))) = 0x4000"
    by (simp add: ex_env_def ex_after_first_eq ex_heap_first_def ex_heap_def)
  have h14: "(0x4000 :: 64 word) \<noteq> 0"
    by simp
  have h15: "unat (0x4000 :: 64 word) + unat (4 :: 64 word) + length ([5, 5, 5] :: byte list)
      < 2 ^ 64"
    by simp
  have h16: "ref_counter ?sb \<in> fst ` set (blocks (mem ex_after_first))"
    by (simp add: ex_after_first_eq ex_heap_first_def ex_heap_def)
  have h17: "(0x4000 :: 64 word) \<noteq> ref_counter ?sb"
    by simp
  have h18: "unat (4 :: 64 word) + length ([5, 5, 5] :: byte list)
      \<le> unat (ref_counter ?sb - 0x4000)"
    by simp
  have h19: "read_bytes (blocks (mem ex_after_first)) (ref_counter ?sb) (unat (4 :: 64 word)) =
      Some [0xB1, 0xB2, 0xB3, 0xB4]"
    by (simp add: ex_after_first_eq ex_heap_first_def ex_heap_def)
  from unaryCall_hook_header_size [OF h1 h2 h3 h4 h5 h6 h7 h8 h9 h10 h11 h12 h13 h14 h15 h16 h17 h18 h19]
  obtain r s' h' sb' where
    f: "unaryCall_hook ex_env (ex_args 0x110) ex_after_first = Inr (r, s') \<and>
      malloc_sizes (drop (length (trace ex_after_first)) (trace s')) =
        [4 + word_of_nat (length [5, 5, 5 :: byte])] \<and>
      dispatched (drop (length (trace ex_after_first)) (trace s')) = [h'] \<and>
      slice_buffers h' (slice_buffer \<lparr>slice_buffer = 0x310\<rparr>) = Some sb' \<and>
      read_bytes (blocks h') (ref_counter sb') (unat (4 :: 64 word)) =
        read_bytes (blocks (mem ex_after_first)) (ref_counter ?sb) (unat (4 :: 64 word)) \<and>
      data sb' - ref_counter sb' = 4 \<and>
      ref_counter_struct_size s' = Some 4 \<and>
      (ref_counter_struct_size ex_after_first = None \<longrightarrow> 4 = data ?sb - ref_counter ?sb) \<and>
      (\<forall>v. ref_counter_struct_size ex_after_first = Some v \<longrightarrow> 4 = v) \<and>
      (\<forall>e' a'. ref_counter_struct_size (final_state (unaryCall_hook e' a' s')) = Some 4)"
    by (elim exE)
  from f have run: "unaryCall_hook ex_env (ex_args 0x110) ex_after_first = Inr (r, s')"
    by (rule conjunct1)
  from f have f1: "malloc_sizes (drop (length (trace ex_after_first)) (trace s')) = [7]"
    by simp
  from f have f2: "dispatched (drop (length (trace ex_after_first)) (trace s')) = [h']"
    by (simp only: simp_thms)
  from f have f3: "slice_buffers h' 0x310 = Some sb'"
    by simp
  from f have f4: "data sb' - ref_counter sb' = 4"
    by (simp only: simp_thms)
  from f have f5: "ref_counter_struct_size s' = Some 4"
    by (simp only: simp_thms)
  have fs: "final_state (unaryCall_hook ex_env (ex_args 0x110) ex_after_first) = s'"
    unfolding run by (simp add: final_state_def)
  have "dispatched (drop (length (trace ex_after_first)) (trace s')) = [mem s']"
    unfolding fs [symmetric] ex_second_final by (simp add: ex_after_first_eq)
  with f2 have m: "mem s' = h'"
    by simp
  have st: "ref_counter_struct_size ex_after_first = Some 4"
    by (simp add: ex_after_first_eq)
  show ?thesis
    unfolding fs m using st f1 f3 f4 f5 by simp
qed

text \<open>
  The claim as stated, with this call's \<open>data - ref_counter\<close> for every rewrite, fails
  on the second rewrite of the concrete process: the difference is 6, and the hook
  allocates 4 + 3 bytes and puts \<open>data\<close> 4 bytes into the new block.
\<close>

theorem unaryCall_hook_header_size_counterexample:
  "ref_counter_struct_size ex_process = None \<and>
   ex_after_first = final_state (unaryCall_hook ex_env (ex_args 0x100) ex_process) \<and>
   slice_buffers (mem ex_after_first) 0x310 =
     Some \<lparr>ref_counter = 0x3000, length_field = 2, data = 0x3006\<rparr> \<and>
   (0x3006 - 0x3000 :: 64 word) = 6 \<and>
   returned (unaryCall_hook ex_env (ex_args 0x110) ex_after_first) = Some 0x77 \<and>
   malloc_sizes (drop (length (trace ex_after_first)) (trace (final_state (unaryCall_hook ex_env (ex_args 0x110) ex_after_first)))) = [7] \<and>
   (7 :: 64 word) \<noteq> (0x3006 - 0x3000) + 3 \<and>
   slice_buffers (mem (final_state (unaryCall_hook ex_env (ex_args 0x110) ex_after_first))) 0x310 =
     Some \<lparr>ref_counter = 0x4000, length_field = 3, data = 0x4004\<rparr> \<and>
   (0x4004 - 0x4000 :: 64 word) \<noteq> 0x3006 - 0x3000"
proof -
  have c1: "ref_counter_struct_size ex_process = None"
    by (simp add: ex_process_def)
  have c2: "ex_after_first = final_state (unaryCall_hook ex_env (ex_args 0x100) ex_process)"
    by (rule ex_after_first_def)
  have c3: "slice_buffers (mem ex_after_first) 0x310 =
      Some \<lparr>ref_counter = 0x3000, length_field = 2, data = 0x3006\<rparr>"
    by (simp add: ex_after_first_eq ex_heap_first_def ex_heap_def)
  have c4: "(0x3006 - 0x3000 :: 64 word) = 6"
    by simp
  have c5: "returned (unaryCall_hook ex_env (ex_args 0x110) ex_after_first) = Some 0x77"
    by (rule ex_second_returned)
  have c6: "malloc_sizes (drop (length (trace ex_after_first)) (trace (final_state (unaryCall_hook ex_env (ex_args 0x110) ex_after_first)))) = [7]"
    unfolding ex_second_final by (simp add: ex_after_first_eq)
  have c7: "(7 :: 64 word) \<noteq> (0x3006 - 0x3000) + 3"
    by simp
  have c8: "slice_buffers (mem (final_state (unaryCall_hook ex_env (ex_args 0x110) ex_after_first))) 0x310 =
      Some \<lparr>ref_counter = 0x4000, length_field = 3, data = 0x4004\<rparr>"
    unfolding ex_second_final by (simp add: ex_heap_second_def)
  have c9: "(0x4004 - 0x4000 :: 64 word) \<noteq> 0x3006 - 0x3000"
    by simp
  show ?thesis
    using c1 c2 c3 c4 c5 c6 c7 c8 c9 by (simp only: simp_thms)
qed

subsection \<open>Allocation failure\<close>

lemma memcpy_nothing: "memcpy m dst src 0 = Inr m"
  by (simp add: memcpy_def)

lemma memcpy_array_nothing: "memcpy_array m dst elems 0 = Inr m"
  by (simp add: memcpy_array_def)

lemma memcpy_null: "k \<noteq> 0 \<Longrightarrow> memcpy m 0 r k = Inl NullDeref"
  by (simp add: memcpy_def)

lemma memcpy_array_null: "k \<noteq> 0 \<Longrightarrow> memcpy_array m 0 elems k = Inl NullDeref"
  by (simp add: memcpy_array_def)

lemma rewrite_slice_buffer_malloc_null:
  fixes hs :: "64 word"
  assumes P: "length P < 2 ^ 31"
    and hs: "hs = (case ref_counter_struct_size s of
                     None \<Rightarrow> data sb - ref_counter sb | Some v \<Rightarrow> v)"
    and alloc: "allocator e (blocks (mem s)) (hs + word_of_nat (length P)) = 0"
    and nonempty: "hs \<noteq> 0 \<or> P \<noteq> []"
  shows "rewrite_slice_buffer e sbp sb P s =
    Inl (NullDeref,
         s\<lparr>ref_counter_struct_size := Some hs,
           trace := trace s @ [Malloc (hs + word_of_nat (length P)) 0]\<rparr>)"
proof -
  have len: "(scast (word_of_nat (length P) :: 32 word) :: 64 word) = word_of_nat (length P)"
    using P by (rule widen_array_length)
  have ulen: "unat (word_of_nat (length P) :: 64 word) = length P"
    using P by (rule unat_array_length)
  have m1: "malloc (allocator e) (blocks (mem s)) (hs + word_of_nat (length P)) =
      (0, blocks (mem s))"
    using alloc by (rule malloc_failure)
  show ?thesis
  proof (cases "hs = 0")
    case False
    then have "unat hs \<noteq> 0"
      by (simp add: unat_eq_0)
    then have m2: "\<And>m r. memcpy m 0 r (unat hs) = Inl NullDeref"
      by (simp add: memcpy_null)
    show ?thesis
      unfolding rewrite_slice_buffer_def Let_def len hs [symmetric]
      by (simp add: m1 m2 set_blocks_def record_event_def)
  next
    case True
    with nonempty have "length P \<noteq> 0"
      by simp
    then have m3: "\<And>m. memcpy_array m 0 P (length P) = Inl NullDeref"
      by (simp add: memcpy_array_null)
    have m1': "malloc (allocator e) (blocks (mem s)) (word_of_nat (length P)) =
      (0, blocks (mem s))"
      using m1 True by simp
    show ?thesis
      unfolding rewrite_slice_buffer_def Let_def len hs [symmetric] True
      by (simp add: m1' memcpy_nothing m3 ulen set_blocks_def record_event_def)
  qed
qed

lemma rewrite_slice_buffer_malloc_null_empty:
  assumes hs: "0 = (case ref_counter_struct_size s of
                     None \<Rightarrow> data sb - ref_counter sb | Some v \<Rightarrow> v)"
    and alloc: "allocator e (blocks (mem s)) 0 = 0"
    and r0: "ref_counter sb \<noteq> 0"
    and live: "ref_counter sb \<in> fst ` set (blocks (mem s))"
  shows "rewrite_slice_buffer e sbp sb [] s =
    Inr (s\<lparr>mem := (mem s)
            \<lparr>blocks := filter (\<lambda>blk. fst blk \<noteq> ref_counter sb) (blocks (mem s)),
             slice_buffers := (slice_buffers (mem s))
               (sbp \<mapsto> \<lparr>ref_counter = 0, length_field = 0, data = 0\<rparr>)\<rparr>,
           ref_counter_struct_size := Some 0,
           trace := trace s @ [Malloc 0 0, Free (ref_counter sb)]\<rparr>)"
proof -
  have m1: "malloc (allocator e) (blocks (mem s)) 0 = (0, blocks (mem s))"
    using alloc by (rule malloc_failure)
  have m4: "free (blocks (mem s)) (ref_counter sb) =
      Inr (filter (\<lambda>blk. fst blk \<noteq> ref_counter sb) (blocks (mem s)))"
    using r0 live by (simp add: free_def)
  show ?thesis
    unfolding rewrite_slice_buffer_def Let_def hs [symmetric]
    by (simp add: m1 m4 memcpy_nothing memcpy_array_nothing set_blocks_def record_event_def)
qed

lemma unaryCall_hook_malloc_null:
  fixes hs :: "64 word"
  assumes bb: "deref (byte_buffer_ptrs (mem s)) (buffer_ptr a) = Inr bb"
    and b: "deref (byte_buffers (mem s)) bb = Inr b"
    and sb: "deref (slice_buffers (mem s)) (slice_buffer b) = Inr sb"
    and r0: "ref_counter sb \<noteq> 0"
    and att: "thread_attached e"
    and len: "unat (length_field sb) < 2 ^ 31"
    and payload: "read_bytes (blocks (mem s)) (data sb) (unat (length_field sb)) = Some payload"
    and d: "onNativeUnaryCall e (uri a) payload = Some d"
    and nc: "\<not> canceled d"
    and buf: "buffer d = Some P"
    and P: "length P < 2 ^ 31"
    and hs: "hs = (case ref_counter_struct_size s of
                     None \<Rightarrow> data sb - ref_counter sb | Some v \<Rightarrow> v)"
    and alloc: "allocator e (blocks (mem s)) (hs + word_of_nat (length P)) = 0"
    and nonempty: "hs \<noteq> 0 \<or> P \<noteq> []"
  shows "unaryCall_hook e a s =
    Inl (NullDeref,
         s\<lparr>ref_counter_struct_size := Some hs,
           trace := trace s @
             [SetByteArrayRegion (data sb) (unat (length_field sb)),
              OnNativeUnaryCall (uri a) payload,
              Malloc (hs + word_of_nat (length P)) 0]\<rparr>)"
proof -
  let ?s2 = "s\<lparr>trace := trace s @
               [SetByteArrayRegion (data sb) (unat (length_field sb)),
                OnNativeUnaryCall (uri a) payload]\<rparr>"
  have hs2: "hs = (case ref_counter_struct_size ?s2 of
                     None \<Rightarrow> data sb - ref_counter sb | Some v \<Rightarrow> v)"
    using hs by simp
  have alloc2: "allocator e (blocks (mem ?s2)) (hs + word_of_nat (length P)) = 0"
    using alloc by simp
  note rw = rewrite_slice_buffer_malloc_null [OF P hs2 alloc2 nonempty, of "slice_buffer b"]
  show ?thesis
    using bb b sb r0 att payload d nc buf jsize_of_length [OF len]
    unfolding unaryCall_hook_def
    by (simp add: rw record_event_def del: read_bytes.simps)
qed

lemma unaryCall_hook_malloc_null_empty:
  assumes bb: "deref (byte_buffer_ptrs (mem s)) (buffer_ptr a) = Inr bb"
    and b: "deref (byte_buffers (mem s)) bb = Inr b"
    and sb: "deref (slice_buffers (mem s)) (slice_buffer b) = Inr sb"
    and r0: "ref_counter sb \<noteq> 0"
    and att: "thread_attached e"
    and len: "unat (length_field sb) < 2 ^ 31"
    and payload: "read_bytes (blocks (mem s)) (data sb) (unat (length_field sb)) = Some payload"
    and d: "onNativeUnaryCall e (uri a) payload = Some d"
    and nc: "\<not> canceled d"
    and buf: "buffer d = Some []"
    and hs: "0 = (case ref_counter_struct_size s of
                     None \<Rightarrow> data sb - ref_counter sb | Some v \<Rightarrow> v)"
    and alloc: "allocator e (blocks (mem s)) 0 = 0"
    and live: "ref_counter sb \<in> fst ` set (blocks (mem s))"
    and h': "h' = (mem s)
            \<lparr>blocks := filter (\<lambda>blk. fst blk \<noteq> ref_counter sb) (blocks (mem s)),
             slice_buffers := (slice_buffers (mem s))
               (slice_buffer b \<mapsto> \<lparr>ref_counter = 0, length_field = 0, data = 0\<rparr>)\<rparr>"
  shows "unaryCall_hook e a s =
    Inr (fst (unaryCall_original e a h'),
         s\<lparr>mem := snd (unaryCall_original e a h'),
           ref_counter_struct_size := Some 0,
           trace := trace s @
             [SetByteArrayRegion (data sb) (unat (length_field sb)),
              OnNativeUnaryCall (uri a) payload,
              Malloc 0 0,
              Free (ref_counter sb),
              UnaryCallOriginal a h']\<rparr>)"
proof -
  let ?s2 = "s\<lparr>trace := trace s @
               [SetByteArrayRegion (data sb) (unat (length_field sb)),
                OnNativeUnaryCall (uri a) payload]\<rparr>"
  have hs2: "0 = (case ref_counter_struct_size ?s2 of
                     None \<Rightarrow> data sb - ref_counter sb | Some v \<Rightarrow> v)"
    using hs by simp
  have alloc2: "allocator e (blocks (mem ?s2)) 0 = 0"
    using alloc by simp
  have live2: "ref_counter sb \<in> fst ` set (blocks (mem ?s2))"
    using live by simp
  note rw = rewrite_slice_buffer_malloc_null_empty [OF hs2 alloc2 r0 live2, of "slice_buffer b"]
  show ?thesis
    using bb b sb r0 att payload d nc buf jsize_of_length [OF len]
    unfolding unaryCall_hook_def h'
    by (simp add: rw call_original_def record_event_def split: prod.splits
        del: read_bytes.simps)
qed

lemma ex_out_of_memory_run:
  "unaryCall_hook ex_env_out_of_memory (ex_args 0x100) ex_process =
     Inl (NullDeref,
       \<lparr>mem = ex_heap, ref_counter_struct_size = Some 4,
        trace = [SetByteArrayRegion 0x1004 3, OnNativeUnaryCall ''/svc/Send'' [1, 2, 3],
                 Malloc 6 0]\<rparr>)"
proof -
  let ?sb = "\<lparr>ref_counter = 0x1000, length_field = 3, data = 0x1004\<rparr>"
  let ?d = "\<lparr>canceled = False, buffer = Some [9, 8]\<rparr>"
  have h1: "deref (byte_buffer_ptrs (mem ex_process)) (buffer_ptr (ex_args 0x100)) = Inr 0x200"
    by (simp add: deref_def ex_process_def ex_heap_def ex_args_def)
  have h2: "deref (byte_buffers (mem ex_process)) 0x200 = Inr \<lparr>slice_buffer = 0x300\<rparr>"
    by (simp add: deref_def ex_process_def ex_heap_def)
  have h3: "deref (slice_buffers (mem ex_process)) (slice_buffer \<lparr>slice_buffer = 0x300\<rparr>) =
      Inr ?sb"
    by (simp add: deref_def ex_process_def ex_heap_def)
  have h4: "ref_counter ?sb \<noteq> 0"
    by simp
  have h5: "thread_attached ex_env_out_of_memory"
    by (simp add: ex_env_out_of_memory_def ex_env_def)
  have h6: "unat (length_field ?sb) < 2 ^ 31"
    by simp
  have h7: "read_bytes (blocks (mem ex_process)) (data ?sb) (unat (length_field ?sb)) =
      Some [1, 2, 3]"
    by (simp add: ex_process_def ex_heap_def)
  have h8: "onNativeUnaryCall ex_env_out_of_memory (uri (ex_args 0x100)) [1, 2, 3] = Some ?d"
    by (simp add: ex_env_out_of_memory_def ex_env_def)
  have h9: "\<not> canceled ?d"
    by simp
  have h10: "buffer ?d = Some [9, 8]"
    by simp
  have h11: "length ([9, 8] :: byte list) < 2 ^ 31"
    by simp
  have h12: "(4 :: 64 word) = (case ref_counter_struct_size ex_process of
      None \<Rightarrow> data ?sb - ref_counter ?sb | Some v \<Rightarrow> v)"
    by (simp add: ex_process_def ex_heap_def)
  have h13: "allocator ex_env_out_of_memory (blocks (mem ex_process))
      (4 + word_of_nat (length ([9, 8] :: byte list))) = 0"
    by (simp add: ex_env_out_of_memory_def ex_env_def ex_process_def ex_heap_def)
  have h14: "(4 :: 64 word) \<noteq> 0 \<or> [9, 8 :: byte] \<noteq> []"
    by simp
  show ?thesis
    using unaryCall_hook_malloc_null [OF h1 h2 h3 h4 h5 h6 h7 h8 h9 h10 h11 h12 h13 h14]
    by (simp add: ex_process_def ex_args_def)
qed

text \<open>
  Claim C2, as the code has it. The hook does not test what \<^verbatim>\<open>malloc\<close> returns. When it
  returns null and the new block has at least one byte (the header size or the new
  payload is not empty), the first \<^verbatim>\<open>memcpy\<close> that has a byte to copy writes through the
  null pointer: the run faults with the heap as it was (the slice buffer's three
  fields are unchanged and the old block is still live), no \<^verbatim>\<open>free\<close> and no call of the
  original dispatch among the events; only the static has been initialised. When the
  block is empty (header size 0 and an empty payload) neither \<^verbatim>\<open>memcpy\<close> copies a byte:
  the hook frees the old block, stores null, 0 and null in the slice buffer and calls
  the original dispatch with that buffer. And no faulting run of the hook, whatever
  the fault, changes a slice buffer or calls the original.
\<close>

theorem unaryCall_hook_allocation_failure:
  fixes hs :: "64 word"
  assumes bb: "deref (byte_buffer_ptrs (mem s)) (buffer_ptr a) = Inr bb"
    and b: "deref (byte_buffers (mem s)) bb = Inr b"
    and sb: "deref (slice_buffers (mem s)) (slice_buffer b) = Inr sb"
    and r0: "ref_counter sb \<noteq> 0"
    and att: "thread_attached e"
    and len: "unat (length_field sb) < 2 ^ 31"
    and payload: "read_bytes (blocks (mem s)) (data sb) (unat (length_field sb)) = Some payload"
    and d: "onNativeUnaryCall e (uri a) payload = Some d"
    and nc: "\<not> canceled d"
    and buf: "buffer d = Some P"
    and P: "length P < 2 ^ 31"
    and hs: "hs = (case ref_counter_struct_size s of
                     None \<Rightarrow> data sb - ref_counter sb | Some v \<Rightarrow> v)"
    and alloc: "allocator e (blocks (mem s)) (hs + word_of_nat (length P)) = 0"
  shows "(hs \<noteq> 0 \<or> P \<noteq> [] \<longrightarrow>
            unaryCall_hook e a s =
              Inl (NullDeref,
                   s\<lparr>ref_counter_struct_size := Some hs,
                     trace := trace s @
                       [SetByteArrayRegion (data sb) (unat (length_field sb)),
                        OnNativeUnaryCall (uri a) payload,
                        Malloc (hs + word_of_nat (length P)) 0]\<rparr>)) \<and>
         (hs = 0 \<and> P = [] \<and> ref_counter sb \<in> fst ` set (blocks (mem s)) \<longrightarrow>
            unaryCall_hook e a s =
              Inr (fst (unaryCall_original e a
                     ((mem s)
                        \<lparr>blocks := filter (\<lambda>blk. fst blk \<noteq> ref_counter sb) (blocks (mem s)),
                         slice_buffers := (slice_buffers (mem s))
                           (slice_buffer b \<mapsto>
                              \<lparr>ref_counter = 0, length_field = 0, data = 0\<rparr>)\<rparr>)),
                   s\<lparr>mem := snd (unaryCall_original e a
                     ((mem s)
                        \<lparr>blocks := filter (\<lambda>blk. fst blk \<noteq> ref_counter sb) (blocks (mem s)),
                         slice_buffers := (slice_buffers (mem s))
                           (slice_buffer b \<mapsto>
                              \<lparr>ref_counter = 0, length_field = 0, data = 0\<rparr>)\<rparr>)),
                     ref_counter_struct_size := Some 0,
                     trace := trace s @
                       [SetByteArrayRegion (data sb) (unat (length_field sb)),
                        OnNativeUnaryCall (uri a) payload,
                        Malloc 0 0,
                        Free (ref_counter sb),
                        UnaryCallOriginal a
                          ((mem s)
                             \<lparr>blocks := filter (\<lambda>blk. fst blk \<noteq> ref_counter sb)
                                 (blocks (mem s)),
                              slice_buffers := (slice_buffers (mem s))
                                (slice_buffer b \<mapsto>
                                   \<lparr>ref_counter = 0, length_field = 0, data = 0\<rparr>)\<rparr>)]\<rparr>)) \<and>
         (\<forall>e' a' s0 f s'. unaryCall_hook e' a' s0 = Inl (f, s') \<longrightarrow>
            slice_buffers (mem s') = slice_buffers (mem s0) \<and>
            dispatched (trace s') = dispatched (trace s0))"
proof (intro conjI impI)
  assume "hs \<noteq> 0 \<or> P \<noteq> []"
  with bb b sb r0 att len payload d nc buf P hs alloc
  show "unaryCall_hook e a s =
      Inl (NullDeref,
           s\<lparr>ref_counter_struct_size := Some hs,
             trace := trace s @
               [SetByteArrayRegion (data sb) (unat (length_field sb)),
                OnNativeUnaryCall (uri a) payload,
                Malloc (hs + word_of_nat (length P)) 0]\<rparr>)"
    by (rule unaryCall_hook_malloc_null)
next
  let ?h' = "(mem s)
      \<lparr>blocks := filter (\<lambda>blk. fst blk \<noteq> ref_counter sb) (blocks (mem s)),
       slice_buffers := (slice_buffers (mem s))
         (slice_buffer b \<mapsto> \<lparr>ref_counter = 0, length_field = 0, data = 0\<rparr>)\<rparr>"
  assume z: "hs = 0 \<and> P = [] \<and> ref_counter sb \<in> fst ` set (blocks (mem s))"
  have buf0: "buffer d = Some []"
    using buf z by simp
  have hs0: "0 = (case ref_counter_struct_size s of
                     None \<Rightarrow> data sb - ref_counter sb | Some v \<Rightarrow> v)"
    using hs z by simp
  have alloc0: "allocator e (blocks (mem s)) 0 = 0"
    using alloc z by simp
  have live: "ref_counter sb \<in> fst ` set (blocks (mem s))"
    using z by simp
  show "unaryCall_hook e a s =
      Inr (fst (unaryCall_original e a ?h'),
           s\<lparr>mem := snd (unaryCall_original e a ?h'),
             ref_counter_struct_size := Some 0,
             trace := trace s @
               [SetByteArrayRegion (data sb) (unat (length_field sb)),
                OnNativeUnaryCall (uri a) payload,
                Malloc 0 0,
                Free (ref_counter sb),
                UnaryCallOriginal a ?h']\<rparr>)"
    using bb b sb r0 att len payload d nc buf0 hs0 alloc0 live refl
    by (rule unaryCall_hook_malloc_null_empty)
next
  show "\<forall>e' a' s0 f s'. unaryCall_hook e' a' s0 = Inl (f, s') \<longrightarrow>
      slice_buffers (mem s') = slice_buffers (mem s0) \<and>
      dispatched (trace s') = dispatched (trace s0)"
    using unaryCall_hook_fault_frame by blast
qed

text \<open>
  The theorem on two runs with an allocator that is out of memory. On the concrete
  process the new block would have 6 bytes: the run faults in the heap as it was.
  On the headerless buffer rewritten to the empty payload the new block would have
  none: the hook returns what the original returned, and the original was handed the
  slice buffer with null, 0 and null in its fields and its old block freed.
\<close>

theorem unaryCall_hook_allocation_failure_witness:
  "faulted (unaryCall_hook ex_env_out_of_memory (ex_args 0x100) ex_process) = Some NullDeref \<and>
   mem (final_state (unaryCall_hook ex_env_out_of_memory (ex_args 0x100) ex_process)) = ex_heap \<and>
   trace (final_state (unaryCall_hook ex_env_out_of_memory (ex_args 0x100) ex_process)) =
     [SetByteArrayRegion 0x1004 3, OnNativeUnaryCall ''/svc/Send'' [1, 2, 3], Malloc 6 0] \<and>
   returned (unaryCall_hook ex_env_empty_rewrite (ex_args 0x100) ex_process_headerless) =
     Some 0x77 \<and>
   mem (final_state (unaryCall_hook ex_env_empty_rewrite (ex_args 0x100) ex_process_headerless)) =
     ex_heap_nulled \<and>
   trace (final_state
       (unaryCall_hook ex_env_empty_rewrite (ex_args 0x100) ex_process_headerless)) =
     [SetByteArrayRegion 0x1000 3, OnNativeUnaryCall ''/svc/Send'' [1, 2, 3], Malloc 0 0,
      Free 0x1000, UnaryCallOriginal (ex_args 0x100) ex_heap_nulled] \<and>
   slice_buffers ex_heap_nulled 0x300 = Some \<lparr>ref_counter = 0, length_field = 0, data = 0\<rparr> \<and>
   blocks ex_heap_nulled = []"
proof -
  let ?sb = "\<lparr>ref_counter = 0x1000, length_field = 3, data = 0x1004\<rparr>"
  let ?d = "\<lparr>canceled = False, buffer = Some [9, 8]\<rparr>"
  have h1: "deref (byte_buffer_ptrs (mem ex_process)) (buffer_ptr (ex_args 0x100)) = Inr 0x200"
    by (simp add: deref_def ex_process_def ex_heap_def ex_args_def)
  have h2: "deref (byte_buffers (mem ex_process)) 0x200 = Inr \<lparr>slice_buffer = 0x300\<rparr>"
    by (simp add: deref_def ex_process_def ex_heap_def)
  have h3: "deref (slice_buffers (mem ex_process)) (slice_buffer \<lparr>slice_buffer = 0x300\<rparr>) =
      Inr ?sb"
    by (simp add: deref_def ex_process_def ex_heap_def)
  have h4: "ref_counter ?sb \<noteq> 0"
    by simp
  have h5: "thread_attached ex_env_out_of_memory"
    by (simp add: ex_env_out_of_memory_def ex_env_def)
  have h6: "unat (length_field ?sb) < 2 ^ 31"
    by simp
  have h7: "read_bytes (blocks (mem ex_process)) (data ?sb) (unat (length_field ?sb)) =
      Some [1, 2, 3]"
    by (simp add: ex_process_def ex_heap_def)
  have h8: "onNativeUnaryCall ex_env_out_of_memory (uri (ex_args 0x100)) [1, 2, 3] = Some ?d"
    by (simp add: ex_env_out_of_memory_def ex_env_def)
  have h9: "\<not> canceled ?d"
    by simp
  have h10: "buffer ?d = Some [9, 8]"
    by simp
  have h11: "length ([9, 8] :: byte list) < 2 ^ 31"
    by simp
  have h12: "(4 :: 64 word) = (case ref_counter_struct_size ex_process of
      None \<Rightarrow> data ?sb - ref_counter ?sb | Some v \<Rightarrow> v)"
    by (simp add: ex_process_def ex_heap_def)
  have h13: "allocator ex_env_out_of_memory (blocks (mem ex_process))
      (4 + word_of_nat (length ([9, 8] :: byte list))) = 0"
    by (simp add: ex_env_out_of_memory_def ex_env_def ex_process_def ex_heap_def)
  have h14: "(4 :: 64 word) \<noteq> 0 \<or> [9, 8 :: byte] \<noteq> []"
    by simp
  note th = unaryCall_hook_allocation_failure [OF h1 h2 h3 h4 h5 h6 h7 h8 h9 h10 h11 h12 h13]
  from th [THEN conjunct1] h14 have run: "unaryCall_hook ex_env_out_of_memory (ex_args 0x100) ex_process =
      Inl (NullDeref,
           ex_process\<lparr>ref_counter_struct_size := Some 4,
             trace := trace ex_process @
               [SetByteArrayRegion (data ?sb) (unat (length_field ?sb)),
                OnNativeUnaryCall (uri (ex_args 0x100)) [1, 2, 3],
                Malloc (4 + word_of_nat (length [9, 8 :: byte])) 0]\<rparr>)"
    by (rule mp)
  let ?s = ex_process_headerless
  let ?e = ex_env_empty_rewrite
  let ?tb = "\<lparr>ref_counter = 0x1000, length_field = 3, data = 0x1000\<rparr>"
  let ?td = "\<lparr>canceled = False, buffer = Some ([] :: byte list)\<rparr>"
  let ?h' = "(mem ?s)
      \<lparr>blocks := filter (\<lambda>blk. fst blk \<noteq> ref_counter ?tb) (blocks (mem ?s)),
       slice_buffers := (slice_buffers (mem ?s))
         (slice_buffer \<lparr>slice_buffer = 0x300\<rparr> \<mapsto>
            \<lparr>ref_counter = 0, length_field = 0, data = 0\<rparr>)\<rparr>"
  have k1: "deref (byte_buffer_ptrs (mem ?s)) (buffer_ptr (ex_args 0x100)) = Inr 0x200"
    by (simp add: deref_def ex_process_headerless_def ex_heap_headerless_def ex_args_def)
  have k2: "deref (byte_buffers (mem ?s)) 0x200 = Inr \<lparr>slice_buffer = 0x300\<rparr>"
    by (simp add: deref_def ex_process_headerless_def ex_heap_headerless_def)
  have k3: "deref (slice_buffers (mem ?s)) (slice_buffer \<lparr>slice_buffer = 0x300\<rparr>) = Inr ?tb"
    by (simp add: deref_def ex_process_headerless_def ex_heap_headerless_def)
  have k4: "ref_counter ?tb \<noteq> 0"
    by simp
  have k5: "thread_attached ?e"
    by (simp add: ex_env_empty_rewrite_def ex_env_def)
  have k6: "unat (length_field ?tb) < 2 ^ 31"
    by simp
  have k7: "read_bytes (blocks (mem ?s)) (data ?tb) (unat (length_field ?tb)) = Some [1, 2, 3]"
    by (simp add: ex_process_headerless_def ex_heap_headerless_def)
  have k8: "onNativeUnaryCall ?e (uri (ex_args 0x100)) [1, 2, 3] = Some ?td"
    by (simp add: ex_env_empty_rewrite_def ex_env_def)
  have k9: "\<not> canceled ?td"
    by simp
  have k10: "buffer ?td = Some []"
    by simp
  have k11: "length ([] :: byte list) < 2 ^ 31"
    by simp
  have k12: "(0 :: 64 word) = (case ref_counter_struct_size ?s of
      None \<Rightarrow> data ?tb - ref_counter ?tb | Some v \<Rightarrow> v)"
    by (simp add: ex_process_headerless_def)
  have k13: "allocator ?e (blocks (mem ?s)) (0 + word_of_nat (length ([] :: byte list))) = 0"
    by (simp add: ex_env_empty_rewrite_def)
  have k14: "(0 :: 64 word) = 0 \<and> ([] :: byte list) = [] \<and>
      ref_counter ?tb \<in> fst ` set (blocks (mem ?s))"
    by (simp add: ex_process_headerless_def ex_heap_headerless_def)
  note tz = unaryCall_hook_allocation_failure [OF k1 k2 k3 k4 k5 k6 k7 k8 k9 k10 k11 k12 k13]
  from tz [THEN conjunct2, THEN conjunct1] k14 have zero: "unaryCall_hook ?e (ex_args 0x100) ?s =
      Inr (fst (unaryCall_original ?e (ex_args 0x100) ?h'),
           ?s\<lparr>mem := snd (unaryCall_original ?e (ex_args 0x100) ?h'),
             ref_counter_struct_size := Some 0,
             trace := trace ?s @
               [SetByteArrayRegion (data ?tb) (unat (length_field ?tb)),
                OnNativeUnaryCall (uri (ex_args 0x100)) [1, 2, 3],
                Malloc 0 0,
                Free (ref_counter ?tb),
                UnaryCallOriginal (ex_args 0x100) ?h']\<rparr>)"
    by (rule mp)
  have nulled: "?h' = ex_heap_nulled"
    by (simp add: ex_heap_nulled_def ex_process_headerless_def ex_heap_headerless_def)
  have orig: "unaryCall_original ?e (ex_args 0x100) ex_heap_nulled = (0x77, ex_heap_nulled)"
    by (simp add: ex_env_empty_rewrite_def ex_env_def)
  have a: "faulted (unaryCall_hook ex_env_out_of_memory (ex_args 0x100) ex_process) =
        Some NullDeref \<and>
      mem (final_state (unaryCall_hook ex_env_out_of_memory (ex_args 0x100) ex_process)) =
        ex_heap \<and>
      trace (final_state (unaryCall_hook ex_env_out_of_memory (ex_args 0x100) ex_process)) =
        [SetByteArrayRegion 0x1004 3, OnNativeUnaryCall ''/svc/Send'' [1, 2, 3], Malloc 6 0]"
    unfolding run by (simp add: faulted_def final_state_def ex_process_def ex_args_def)
  have b: "returned (unaryCall_hook ?e (ex_args 0x100) ?s) = Some 0x77 \<and>
      mem (final_state (unaryCall_hook ?e (ex_args 0x100) ?s)) = ex_heap_nulled \<and>
      trace (final_state (unaryCall_hook ?e (ex_args 0x100) ?s)) =
        [SetByteArrayRegion 0x1000 3, OnNativeUnaryCall ''/svc/Send'' [1, 2, 3], Malloc 0 0,
         Free 0x1000, UnaryCallOriginal (ex_args 0x100) ex_heap_nulled]"
    unfolding zero nulled orig
    by (simp add: returned_def final_state_def ex_process_headerless_def ex_args_def)
  have c: "slice_buffers ex_heap_nulled 0x300 =
        Some \<lparr>ref_counter = 0, length_field = 0, data = 0\<rparr> \<and>
      blocks ex_heap_nulled = []"
    by (simp add: ex_heap_nulled_def)
  show ?thesis
    using a b c by simp
qed

text \<open>
  The claim as stated has the original dispatch still called after a failed allocation;
  on the concrete process with an allocator that is out of memory the hook faults and
  the original is not called.
\<close>

theorem unaryCall_hook_allocation_failure_counterexample:
  "allocator ex_env_out_of_memory (blocks (mem ex_process)) 6 = 0 \<and>
   faulted (unaryCall_hook ex_env_out_of_memory (ex_args 0x100) ex_process) = Some NullDeref \<and>
   returned (unaryCall_hook ex_env_out_of_memory (ex_args 0x100) ex_process) = None \<and>
   dispatched (trace (final_state
     (unaryCall_hook ex_env_out_of_memory (ex_args 0x100) ex_process))) = []"
  unfolding ex_out_of_memory_run
  by (simp add: faulted_def returned_def final_state_def ex_env_out_of_memory_def)

end
